theory Spec2Isabelle
  imports Complex_Main "HOL-Library.Word"
begin

unbundle bit_operations_syntax

section \<open>Machine types\<close>

text \<open>
  The driver works on the fixed-width unsigned integers of \<^verbatim>\<open>stdint.h\<close>; they are words
  here, so that shifts, masks and narrowing conversions wrap as they do in C++.

  The host is little-endian (the macros \<^verbatim>\<open>FIRST_WORD\<close> and \<^verbatim>\<open>SECOND_WORD\<close> read two bytes of a
  packet through a \<^verbatim>\<open>__u16\<close> pointer), structures are packed (\<^verbatim>\<open>#pragma pack(1)\<close>) and the
  first bit-field declared in a byte is its bit 0.
\<close>

type_synonym u8 = "8 word"
type_synonym u16 = "16 word"
type_synonym u32 = "32 word"

section \<open>Floating point\<close>

text \<open>
  A \<^verbatim>\<open>float\<close> or \<^verbatim>\<open>double\<close> value is the real number it denotes; NaN and the infinities
  have no counterpart. Comparisons are exact. Every arithmetic operation of the write
  path is evaluated in the precision of its operands (IEEE 754 binary32 for \<^verbatim>\<open>float\<close>,
  binary64 for \<^verbatim>\<open>double\<close>, no wider intermediate format and no fused operation) and
  rounded to the nearest number of the format, ties to the even significand:
  \<open>fl p emin\<close> rounds to \<open>p\<close> significant bits with the smallest normal exponent \<open>- emin\<close>
  (and the subnormal numbers below it), \<open>f32\<close> is single and \<open>f64\<close> double precision.
  Overflow to an infinity is left out: no operation of the driver on values that pass
  its range checks comes near it.

  \<open>exponent emin x\<close> is the exponent \<open>e\<close> with \<open>2 ^ e \<le> x < 2 ^ (e + 1)\<close> of a positive \<open>x\<close>,
  not below \<open>- emin\<close>: the number of halvings that bring \<open>x\<close> below 2, or of doublings
  that bring it to 1.
\<close>

primrec halvings :: "nat \<Rightarrow> real \<Rightarrow> nat" where
  "halvings 0 x = 0"
| "halvings (Suc n) x = (if 2 \<le> x then Suc (halvings n (x / 2)) else 0)"

primrec doublings :: "nat \<Rightarrow> real \<Rightarrow> nat" where
  "doublings 0 x = 0"
| "doublings (Suc n) x = (if x < 1 then Suc (doublings n (2 * x)) else 0)"

definition exponent :: "nat \<Rightarrow> real \<Rightarrow> int" where
  "exponent emin x =
     (if 1 \<le> x then int (halvings (emin + 2) x) else - int (doublings emin x))"

text \<open>Rounding to the nearest integer, a tie to the even one.\<close>

definition rne :: "real \<Rightarrow> int" where
  "rne y =
     (let f = \<lfloor>y\<rfloor>; r = y - of_int f
      in if r < 1 / 2 then f else if 1 / 2 < r then f + 1
         else if even f then f else f + 1)"

definition fl :: "nat \<Rightarrow> nat \<Rightarrow> real \<Rightarrow> real" where
  "fl p emin x =
     (if x = 0 then 0
      else (let u = 2 powi (exponent emin \<bar>x\<bar> - int p + 1)
            in of_int (rne (x / u)) * u))"

definition f32 :: "real \<Rightarrow> real" where
  "f32 = fl 24 126"

definition f64 :: "real \<Rightarrow> real" where
  "f64 = fl 53 1022"

section \<open>Error codes of \<^verbatim>\<open>libusmc.h\<close>\<close>

definition ERR_SUCCESS :: int where "ERR_SUCCESS = 0"
definition ERR_INVALID_ID :: int where "ERR_INVALID_ID = - 40"
definition ERR_INVALID_PARAM :: int where "ERR_INVALID_PARAM = - 41"
definition ERR_INVALID_VALUE :: int where "ERR_INVALID_VALUE = - 42"

section \<open>The user structures of \<^verbatim>\<open>libusmc.h\<close>\<close>

record USMC_Mode =
  PMode :: bool
  PReg :: bool
  ResetD :: bool
  EMReset :: bool
  Tr1T :: bool
  Tr2T :: bool
  RotTrT :: bool
  TrSwap :: bool
  Tr1En :: bool
  Tr2En :: bool
  RotTeEn :: bool
  RotTrOp :: bool
  Butt1T :: bool
  Butt2T :: bool
  ResetRT :: bool
  SyncOUTEn :: bool
  SyncOUTR :: bool
  SyncINOp :: bool
  SyncCount :: u32
  SyncInvert :: bool
  EncoderEn :: bool
  EncoderInv :: bool
  ResBEnc :: bool
  ResEnc :: bool

record USMC_Parameters =
  AccelT :: real
  DecelT :: real
  PTimeout :: real
  BTimeout1 :: real
  BTimeout2 :: real
  BTimeout3 :: real
  BTimeout4 :: real
  BTimeoutR :: real
  BTimeoutD :: real
  MinP :: real
  BTO1P :: real
  BTO2P :: real
  BTO3P :: real
  BTO4P :: real
  MaxLoft :: u16
  StartPos :: u32
  RTDelta :: u16
  RTMinError :: u16
  MaxTemp :: real
  SynOUTP :: u8
  LoftPeriod :: real
  EncMult :: real

text \<open>
  \<^verbatim>\<open>USMC_StartParameters\<close> has a field \<^verbatim>\<open>SyncOUTR\<close> as \<^verbatim>\<open>USMC_Mode\<close> does; the two
  selectors are told apart by the record name.
\<close>

record USMC_StartParameters =
  SDivisor :: u8
  DefDir :: bool
  LoftEn :: bool
  SlStart :: bool
  WSyncIN :: bool
  SyncOUTR :: bool
  ForceLoft :: bool

text \<open>\<^verbatim>\<open>USMC_State\<close> has a field \<^verbatim>\<open>SDivisor\<close> as well.\<close>

record USMC_State =
  CurPos :: int
  Temp :: real
  SDivisor :: u8
  Loft :: bool
  FullPower :: bool
  CW_CCW :: bool
  Power :: bool
  FullSpeed :: bool
  AReset :: bool
  RUN :: bool
  SyncIN :: bool
  SyncOUT :: bool
  RotTr :: bool
  RotTrErr :: bool
  EmReset :: bool
  Trailer1 :: bool
  Trailer2 :: bool
  Voltage :: real

section \<open>The USB bus as the driver sees it\<close>

text \<open>
  One call of \<^verbatim>\<open>libusb_control_transfer\<close>: the device handle, the four setup fields, the
  bytes handed over for an OUT transfer and the length. The timeout is the constant
  \<^verbatim>\<open>_timeout = 10000\<close> and is left out.
\<close>

record control_transfer =
  handle :: nat
  bmRequestType :: u8
  bRequest :: u8
  wValue :: u16
  wIndex :: u16
  payload :: "u8 list"
  wLength :: u16

text \<open>
  What happens on the bus and on the per-device mutexes is recorded in a log. \<^verbatim>\<open>USMC_lock\<close>
  is a scoped lock: its constructor acquires the mutex of the device and its destructor
  releases it when the wire routine returns.
\<close>

datatype usb_event = Acquire nat | Transfer control_transfer | Release nat

text \<open>
  The bus is not part of the repository. It is a parameter: given the log so far and the
  transfer, it answers with the return value of \<^verbatim>\<open>libusb_control_transfer\<close> and with
  the contents of the data buffer after the call.
\<close>

type_synonym usb_host = "usb_event list \<Rightarrow> control_transfer \<Rightarrow> int \<times> (nat \<Rightarrow> u8)"

definition LIBUSB_ENDPOINT_IN :: u8 where "LIBUSB_ENDPOINT_IN = 0x80"
definition LIBUSB_ENDPOINT_OUT :: u8 where "LIBUSB_ENDPOINT_OUT = 0x00"
definition LIBUSB_RECIPIENT_DEVICE :: u8 where "LIBUSB_RECIPIENT_DEVICE = 0x00"
definition LIBUSB_REQUEST_TYPE_VENDOR :: u8 where "LIBUSB_REQUEST_TYPE_VENDOR = 0x40"

section \<open>The registry \<^verbatim>\<open>USMC_impl\<close>\<close>

text \<open>
  The members \<^verbatim>\<open>_dev\<close>, \<^verbatim>\<open>_version\<close>, \<^verbatim>\<open>_serial\<close>, \<^verbatim>\<open>_speed\<close>, \<^verbatim>\<open>_params\<close>, \<^verbatim>\<open>_mode\<close> and
  \<^verbatim>\<open>_start_params\<close> are parallel vectors indexed by the device id (an identifier cannot
  start with an underscore here, hence the prefix). \<^verbatim>\<open>_locks\<close> holds one mutex per
  device; the mutex of device \<open>i\<close> is named by \<open>i\<close> in the log. The field \<open>usb_log\<close> is
  not a member of the class: it is the history of the bus.
\<close>

record USMC_impl =
  v_dev :: "nat list"
  v_version :: "u32 list"
  v_serial :: "string list"
  v_speed :: "real list"
  v_params :: "USMC_Parameters list"
  v_mode :: "USMC_Mode list"
  v_start_params :: "USMC_StartParameters list"
  usb_log :: "usb_event list"

definition checkDevice :: "USMC_impl \<Rightarrow> int \<Rightarrow> bool" where
  "checkDevice s device = (if device \<ge> 0 \<and> device < int (length (v_dev s)) then True else False)"

text \<open>
  The lock and the transfer of every wire routine:
  \<^verbatim>\<open>USMC_lock access_lock(_locks[id]); int res = libusb_control_transfer(_dev[id], ...);\<close>
  and the release at the end of the scope.
\<close>

definition locked_transfer ::
  "usb_host \<Rightarrow> USMC_impl \<Rightarrow> nat \<Rightarrow> control_transfer \<Rightarrow> (int \<times> (nat \<Rightarrow> u8)) \<times> USMC_impl" where
  "locked_transfer host s dev_id ct =
     (let held = usb_log s @ [Acquire dev_id];
          res = host held ct
      in (res, s\<lparr>usb_log := held @ [Transfer ct, Release dev_id]\<rparr>))"

section \<open>Byte macros of \<^verbatim>\<open>libusmc_impl.cpp\<close>\<close>

definition HIBYTE :: "u32 \<Rightarrow> u32" where
  "HIBYTE w = drop_bit 8 (w AND 0xff00)"

definition LOBYTE :: "u32 \<Rightarrow> u32" where
  "LOBYTE w = w AND 0x00ff"

definition HIWORD :: "u32 \<Rightarrow> u32" where
  "HIWORD dw = drop_bit 16 (dw AND 0xffff0000)"

definition LOWORD :: "u32 \<Rightarrow> u32" where
  "LOWORD dw = dw AND 0x0000ffff"

text \<open>
  \<^verbatim>\<open>PACK_WORD\<close> is always applied to a \<^verbatim>\<open>uint16_t\<close> and stored in a \<^verbatim>\<open>__u16\<close> field; the
  arithmetic in between is done on the promoted value.
\<close>

definition PACK_WORD :: "u16 \<Rightarrow> u16" where
  "PACK_WORD w = ucast (HIBYTE (ucast w) OR push_bit 8 (LOBYTE (ucast w)))"

definition PACK_DWORD :: "u32 \<Rightarrow> u32" where
  "PACK_DWORD w =
     HIBYTE (HIWORD w) OR push_bit 8 (LOBYTE (HIWORD w)) OR
     push_bit 16 (HIBYTE (LOWORD w)) OR push_bit 24 (LOBYTE (LOWORD w))"

text \<open>
  Packets are built in a local structure and sent from there. Memory is a function from
  byte offsets (relative to the start of the structure) to bytes, so that the same value
  describes the fields that were assigned, the bits that never were (they keep what the
  stack held before) and the bytes that lie behind the structure.
\<close>

type_synonym memory = "nat \<Rightarrow> u8"

definition write_u8 :: "memory \<Rightarrow> nat \<Rightarrow> u8 \<Rightarrow> memory" where
  "write_u8 m off b = m(off := b)"

definition write_u16 :: "memory \<Rightarrow> nat \<Rightarrow> u16 \<Rightarrow> memory" where
  "write_u16 m off w = (m(off := ucast w))(off + 1 := ucast (drop_bit 8 w))"

definition write_u32 :: "memory \<Rightarrow> nat \<Rightarrow> u32 \<Rightarrow> memory" where
  "write_u32 m off w =
     (((m(off := ucast w))(off + 1 := ucast (drop_bit 8 w)))
        (off + 2 := ucast (drop_bit 16 w)))(off + 3 := ucast (drop_bit 24 w))"

text \<open>Assignment to a one-bit bit-field: bit \<open>n\<close> of the byte at \<open>off\<close>, the other bits kept.\<close>

definition write_bit :: "memory \<Rightarrow> nat \<Rightarrow> nat \<Rightarrow> bool \<Rightarrow> memory" where
  "write_bit m off n v =
     m(off := (m off AND NOT (push_bit n 1)) OR (if v then push_bit n 1 else 0))"

definition read_bit :: "memory \<Rightarrow> nat \<Rightarrow> nat \<Rightarrow> bool" where
  "read_bit m off n = bit (m off) n"

definition read_u16 :: "memory \<Rightarrow> nat \<Rightarrow> u16" where
  "read_u16 m off = ucast (m off) OR push_bit 8 (ucast (m (off + 1)))"

definition read_u32 :: "memory \<Rightarrow> nat \<Rightarrow> u32" where
  "read_u32 m off =
     ucast (m off) OR push_bit 8 (ucast (m (off + 1))) OR
     push_bit 16 (ucast (m (off + 2))) OR push_bit 24 (ucast (m (off + 3)))"

definition read_bytes :: "memory \<Rightarrow> nat \<Rightarrow> nat \<Rightarrow> u8 list" where
  "read_bytes m off n = map m [off..<off + n]"

definition FIRST_BYTE :: "memory \<Rightarrow> u8" where "FIRST_BYTE pPacketData = pPacketData 0"
definition SECOND_BYTE :: "memory \<Rightarrow> u8" where "SECOND_BYTE pPacketData = pPacketData 1"
definition THIRD_BYTE :: "memory \<Rightarrow> u8" where "THIRD_BYTE pPacketData = pPacketData 2"
definition FOURTH_BYTE :: "memory \<Rightarrow> u8" where "FOURTH_BYTE pPacketData = pPacketData 3"

definition FIRST_WORD :: "memory \<Rightarrow> u16" where
  "FIRST_WORD pPacketData = read_u16 pPacketData 0"

definition SECOND_WORD :: "memory \<Rightarrow> u16" where
  "SECOND_WORD pPacketData = read_u16 pPacketData 2"

definition FIRST_WORD_SWAPPED :: "memory \<Rightarrow> u16" where
  "FIRST_WORD_SWAPPED pPacketData =
     push_bit 8 (ucast (FIRST_BYTE pPacketData)) OR ucast (SECOND_BYTE pPacketData)"

definition SECOND_WORD_SWAPPED :: "memory \<Rightarrow> u16" where
  "SECOND_WORD_SWAPPED pPacketData =
     push_bit 8 (ucast (THIRD_BYTE pPacketData)) OR ucast (FOURTH_BYTE pPacketData)"

text \<open>
  Conversion of a floating-point value to an integer type truncates towards zero; the
  result is undefined in C++ when the truncated value does not fit the target type, and
  is reduced modulo the width here.
\<close>

definition trunc :: "real \<Rightarrow> int" where
  "trunc x = (if x < 0 then \<lceil>x\<rceil> else \<lfloor>x\<rfloor>)"

text \<open>The two overloads of \<^verbatim>\<open>clamp\<close> (on \<^verbatim>\<open>int\<close> and on \<^verbatim>\<open>float\<close>) have the same body.\<close>

definition clamp :: "'a::linorder \<Rightarrow> 'a \<Rightarrow> 'a \<Rightarrow> 'a" where
  "clamp val lo hi = (if val > hi then hi else (if val < lo then lo else val))"

section \<open>Setting the current position\<close>

text \<open>
  The wire routine \<^verbatim>\<open>usmc_set_current_position\<close>: request \<open>0x01\<close>, no data stage; the
  position in steps is multiplied by 8, its five low bits are cleared, the high half goes
  into \<open>wValue\<close> and the low half into \<open>wIndex\<close>.
\<close>

definition usmc_set_current_position ::
  "usb_host \<Rightarrow> memory \<Rightarrow> USMC_impl \<Rightarrow> nat \<Rightarrow> u32 \<Rightarrow> int \<times> USMC_impl" where
  "usmc_set_current_position host stack s dev_id position =
     (let position1 = position * 8;
          position2 = position1 AND 0xFFFFFFE0;
          ct = \<lparr>handle = v_dev s ! dev_id,
                bmRequestType = LIBUSB_ENDPOINT_OUT OR LIBUSB_RECIPIENT_DEVICE OR LIBUSB_REQUEST_TYPE_VENDOR,
                bRequest = 0x01,
                wValue = SECOND_WORD (write_u32 stack 0 position2),
                wIndex = FIRST_WORD (write_u32 stack 0 position2),
                payload = [],
                wLength = 0\<rparr>;
          (res, s1) = locked_transfer host s dev_id ct
      in if fst res < 0 then (fst res, s1) else (0, s1))"

text \<open>
  The public operation \<^verbatim>\<open>setCurrentPosition\<close> checks the device id and ends there: for a
  valid id control reaches the closing brace of the function without a \<^verbatim>\<open>return\<close>, so
  the caller gets no defined value (\<open>None\<close>).
\<close>

definition setCurrentPosition :: "USMC_impl \<Rightarrow> int \<Rightarrow> u32 \<Rightarrow> int option \<times> USMC_impl" where
  "setCurrentPosition s device position =
     (if \<not> checkDevice s device then (Some ERR_INVALID_ID, s) else (None, s))"

section \<open>Speed\<close>

definition getSpeed :: "USMC_impl \<Rightarrow> int \<Rightarrow> int \<times> real option" where
  "getSpeed s device =
     (if \<not> checkDevice s device then (ERR_INVALID_ID, None)
      else (ERR_SUCCESS, Some (v_speed s ! nat device)))"

definition setSpeed :: "USMC_impl \<Rightarrow> int \<Rightarrow> real \<Rightarrow> int \<times> USMC_impl" where
  "setSpeed s device speed =
     (if \<not> checkDevice s device then (ERR_INVALID_ID, s)
      else if speed < 16.0 \<or> speed > 5000.0 then (ERR_INVALID_VALUE, s)
      else (ERR_SUCCESS, s\<lparr>v_speed := (v_speed s)[nat device := speed]\<rparr>))"

section \<open>Default values\<close>

text \<open>The three structures after \<^verbatim>\<open>memset(..., 0, sizeof(...))\<close>.\<close>

definition zero_Mode :: USMC_Mode where
  "zero_Mode =
     \<lparr>PMode = False, PReg = False, ResetD = False, EMReset = False, Tr1T = False,
      Tr2T = False, RotTrT = False, TrSwap = False, Tr1En = False, Tr2En = False,
      RotTeEn = False, RotTrOp = False, Butt1T = False, Butt2T = False, ResetRT = False,
      SyncOUTEn = False, USMC_Mode.SyncOUTR = False, SyncINOp = False, SyncCount = 0,
      SyncInvert = False, EncoderEn = False, EncoderInv = False, ResBEnc = False,
      ResEnc = False\<rparr>"

definition zero_Parameters :: USMC_Parameters where
  "zero_Parameters =
     \<lparr>AccelT = 0, DecelT = 0, PTimeout = 0, BTimeout1 = 0, BTimeout2 = 0, BTimeout3 = 0,
      BTimeout4 = 0, BTimeoutR = 0, BTimeoutD = 0, MinP = 0, BTO1P = 0, BTO2P = 0,
      BTO3P = 0, BTO4P = 0, MaxLoft = 0, StartPos = 0, RTDelta = 0, RTMinError = 0,
      MaxTemp = 0, SynOUTP = 0, LoftPeriod = 0, EncMult = 0\<rparr>"

definition zero_StartParameters :: USMC_StartParameters where
  "zero_StartParameters =
     \<lparr>USMC_StartParameters.SDivisor = 0, DefDir = False, LoftEn = False, SlStart = False,
      WSyncIN = False, USMC_StartParameters.SyncOUTR = False, ForceLoft = False\<rparr>"

definition initDefaults :: "USMC_impl \<Rightarrow> nat \<Rightarrow> USMC_impl" where
  "initDefaults s dev_id =
     s\<lparr>v_mode := (v_mode s)[dev_id :=
          zero_Mode\<lparr>PReg := True, Tr1En := True, Tr2En := True, RotTrOp := True,
                    SyncOUTEn := True, SyncINOp := True, SyncCount := 4\<rparr>],
       v_params := (v_params s)[dev_id :=
          zero_Parameters\<lparr>MaxTemp := 70.0, AccelT := 200.0, DecelT := 200.0,
                          BTimeout1 := 500.0, BTimeout2 := 500.0, BTimeout3 := 500.0,
                          BTimeout4 := 500.0, BTO1P := 200.0, BTO2P := 300.0,
                          BTO3P := 400.0, BTO4P := 500.0, MinP := 500.0,
                          BTimeoutR := 500.0, LoftPeriod := 32.0, RTDelta := 200,
                          RTMinError := 15, EncMult := 2.5, MaxLoft := 32,
                          PTimeout := 100.0, SynOUTP := 1, StartPos := 0\<rparr>],
       v_start_params := (v_start_params s)[dev_id :=
          zero_StartParameters\<lparr>USMC_StartParameters.SDivisor := 8, LoftEn := True,
                               SlStart := True\<rparr>]\<rparr>"

section \<open>Moving\<close>

text \<open>
  \<^verbatim>\<open>GO_TO_PACKET\<close> (7 bytes): \<open>DestPos\<close> at offset 0, \<open>TimerPeriod\<close> at offset 4, and in
  byte 6 the bit-fields \<open>M1\<close>, \<open>M2\<close>, \<open>DEFDIR\<close>, \<open>LOFTEN\<close>, \<open>SLSTRT\<close>, \<open>WSYNCIN\<close>,
  \<open>SYNCOUTR\<close>, \<open>FORCELOFT\<close> from bit 0 upwards. The local \<open>goToData\<close> is not initialised:
  it starts as \<open>stack\<close>. The \<^verbatim>\<open>switch\<close> on \<open>SDivisor\<close> has the cases 1, 2, 4 and 8 and no
  default. (\<open>position * 8\<close> is a signed multiplication in the source, undefined on
  overflow; it wraps here.)
\<close>

text \<open>
  The period of line 691:
  \<^verbatim>\<open>( uint16_t ) ( 65536.0f - ( 1000000.0f / clamp ( speed, 16.0f, 5000.0f ) ) + 0.5f )\<close>,
  a division, a subtraction and an addition in single precision.
\<close>

definition goto_TimerPeriod :: "real \<Rightarrow> u16" where
  "goto_TimerPeriod speed =
     word_of_int
       (trunc (f32 (f32 (65536.0 - f32 (1000000.0 / clamp speed 16.0 5000.0)) + 0.5)))"

definition goto_packet :: "memory \<Rightarrow> u32 \<Rightarrow> real \<Rightarrow> USMC_StartParameters \<Rightarrow> memory" where
  "goto_packet stack position speed params =
     (let g0 = write_u32 stack 0 (position * 8);
          g1 = write_u16 g0 4 (PACK_WORD (goto_TimerPeriod speed));
          g2 = (if USMC_StartParameters.SDivisor params = 1
                  then write_bit (write_bit g1 6 1 False) 6 0 False
                else if USMC_StartParameters.SDivisor params = 2
                  then write_bit (write_bit g1 6 0 True) 6 1 False
                else if USMC_StartParameters.SDivisor params = 4
                  then write_bit (write_bit g1 6 0 False) 6 1 True
                else if USMC_StartParameters.SDivisor params = 8
                  then write_bit (write_bit g1 6 0 True) 6 1 True
                else g1);
          g3 = write_bit g2 6 2 (DefDir params);
          g4 = write_bit g3 6 3 (LoftEn params);
          g5 = write_bit g4 6 4 (SlStart params);
          g6 = write_bit g5 6 5 (WSyncIN params);
          g7 = write_bit g6 6 6 (USMC_StartParameters.SyncOUTR params)
      in write_bit g7 6 7 (ForceLoft params))"

text \<open>The arguments of the call of \<^verbatim>\<open>libusb_control_transfer\<close> in \<^verbatim>\<open>usmc_goto\<close>.\<close>

definition goto_request ::
  "memory \<Rightarrow> USMC_impl \<Rightarrow> nat \<Rightarrow> u32 \<Rightarrow> real \<Rightarrow> USMC_StartParameters \<Rightarrow> control_transfer" where
  "goto_request stack s dev_id position speed params =
     (let goToData = goto_packet stack position speed params
      in \<lparr>handle = v_dev s ! dev_id,
          bmRequestType = LIBUSB_ENDPOINT_OUT OR LIBUSB_RECIPIENT_DEVICE OR LIBUSB_REQUEST_TYPE_VENDOR,
          bRequest = 0x80,
          wValue = SECOND_WORD goToData,
          wIndex = FIRST_WORD goToData,
          payload = read_bytes goToData 4 3,
          wLength = 3\<rparr>)"

definition usmc_goto ::
  "usb_host \<Rightarrow> memory \<Rightarrow> USMC_impl \<Rightarrow> nat \<Rightarrow> u32 \<Rightarrow> real \<Rightarrow> USMC_StartParameters
     \<Rightarrow> int \<times> USMC_impl" where
  "usmc_goto host stack s dev_id position speed params =
     (let (res, s1) = locked_transfer host s dev_id
                        (goto_request stack s dev_id position speed params)
      in if fst res < 0 then (fst res, s1) else (0, s1))"

definition moveTo :: "usb_host \<Rightarrow> memory \<Rightarrow> USMC_impl \<Rightarrow> int \<Rightarrow> u32 \<Rightarrow> int \<times> USMC_impl" where
  "moveTo host stack s device destination =
     (if \<not> checkDevice s device then (ERR_INVALID_ID, s)
      else usmc_goto host stack s (nat device) destination
             (v_speed s ! nat device) (v_start_params s ! nat device))"

section \<open>Start parameters\<close>

text \<open>A pointer argument is \<open>None\<close> when it is \<^verbatim>\<open>NULL\<close>.\<close>

definition getStartParameters ::
  "USMC_impl \<Rightarrow> int \<Rightarrow> USMC_StartParameters option \<Rightarrow> int \<times> USMC_StartParameters option" where
  "getStartParameters s device start_params =
     (if \<not> checkDevice s device then (ERR_INVALID_ID, start_params)
      else if start_params = None then (ERR_INVALID_PARAM, start_params)
      else (ERR_SUCCESS, Some (v_start_params s ! nat device)))"

definition setStartParameters ::
  "USMC_impl \<Rightarrow> int \<Rightarrow> USMC_StartParameters option \<Rightarrow> int \<times> USMC_impl" where
  "setStartParameters s device start_params =
     (if \<not> checkDevice s device then (ERR_INVALID_ID, s)
      else case start_params of
             None \<Rightarrow> (ERR_INVALID_PARAM, s)
           | Some sp \<Rightarrow>
               (ERR_SUCCESS, s\<lparr>v_start_params := (v_start_params s)[nat device := sp]\<rparr>))"

section \<open>Mode\<close>

text \<open>
  \<^verbatim>\<open>MODE_PACKET\<close> as \<^verbatim>\<open>usmctypes.h\<close> declares it: three bytes of one-bit fields and a
  \<^verbatim>\<open>__u16 SYNCCOUNT\<close> at offset 3, five bytes in all. The local \<open>setModeData\<close> is not
  initialised and \<open>BUTSWAP\<close> (byte 1, bit 6) is never assigned. The 32-bit value of
  \<^verbatim>\<open>PACK_DWORD\<close> is narrowed to the 16-bit field. The transfer sends three bytes from
  offset 4 of the structure.
\<close>

definition mode_packet :: "memory \<Rightarrow> USMC_Mode \<Rightarrow> memory" where
  "mode_packet stack mode =
     (let a0 = write_bit stack 0 0 (PMode mode);
          a1 = write_bit a0 0 1 (PReg mode);
          a2 = write_bit a1 0 2 (ResetD mode);
          a3 = write_bit a2 0 3 (EMReset mode);
          a4 = write_bit a3 0 4 (Tr1T mode);
          a5 = write_bit a4 0 5 (Tr2T mode);
          a6 = write_bit a5 0 6 (RotTrT mode);
          a7 = write_bit a6 0 7 (TrSwap mode);
          b0 = write_bit a7 1 0 (Tr1En mode);
          b1 = write_bit b0 1 1 (Tr2En mode);
          b2 = write_bit b1 1 2 (RotTeEn mode);
          b3 = write_bit b2 1 3 (RotTrOp mode);
          b4 = write_bit b3 1 4 (Butt1T mode);
          b5 = write_bit b4 1 5 (Butt2T mode);
          b7 = write_bit b5 1 7 (ResetRT mode);
          c0 = write_bit b7 2 0 (SyncOUTEn mode);
          c1 = write_bit c0 2 1 (USMC_Mode.SyncOUTR mode);
          c2 = write_bit c1 2 2 (SyncINOp mode);
          c3 = write_bit c2 2 3 (SyncInvert mode);
          c4 = write_bit c3 2 4 (EncoderEn mode);
          c5 = write_bit c4 2 5 (EncoderInv mode);
          c6 = write_bit c5 2 6 (ResBEnc mode);
          c7 = write_bit c6 2 7 (ResEnc mode)
      in write_u16 c7 3 (ucast (PACK_DWORD (SyncCount mode))))"

text \<open>The arguments of the call of \<^verbatim>\<open>libusb_control_transfer\<close> in \<^verbatim>\<open>usmc_set_mode\<close>.\<close>

definition mode_request :: "memory \<Rightarrow> USMC_impl \<Rightarrow> nat \<Rightarrow> USMC_Mode \<Rightarrow> control_transfer" where
  "mode_request stack s dev_id mode =
     (let setModeData = mode_packet stack mode
      in \<lparr>handle = v_dev s ! dev_id,
          bmRequestType = LIBUSB_ENDPOINT_OUT OR LIBUSB_RECIPIENT_DEVICE OR LIBUSB_REQUEST_TYPE_VENDOR,
          bRequest = 0x81,
          wValue = FIRST_WORD_SWAPPED setModeData,
          wIndex = SECOND_WORD_SWAPPED setModeData,
          payload = read_bytes setModeData 4 3,
          wLength = 3\<rparr>)"

definition usmc_set_mode ::
  "usb_host \<Rightarrow> memory \<Rightarrow> USMC_impl \<Rightarrow> nat \<Rightarrow> USMC_Mode \<Rightarrow> int \<times> USMC_impl" where
  "usmc_set_mode host stack s dev_id mode =
     (let (res, s1) = locked_transfer host s dev_id (mode_request stack s dev_id mode)
      in if fst res < 0 then (fst res, s1) else (0, s1))"

definition getMode :: "USMC_impl \<Rightarrow> int \<Rightarrow> USMC_Mode option \<Rightarrow> int \<times> USMC_Mode option" where
  "getMode s device mode =
     (if \<not> checkDevice s device then (ERR_INVALID_ID, mode)
      else if mode = None then (ERR_INVALID_PARAM, mode)
      else (ERR_SUCCESS, Some (v_mode s ! nat device)))"

definition setMode ::
  "usb_host \<Rightarrow> memory \<Rightarrow> USMC_impl \<Rightarrow> int \<Rightarrow> USMC_Mode option \<Rightarrow> int \<times> USMC_impl" where
  "setMode host stack s device mode =
     (if \<not> checkDevice s device then (ERR_INVALID_ID, s)
      else case mode of
             None \<Rightarrow> (ERR_INVALID_PARAM, s)
           | Some m \<Rightarrow>
               (let (r, s1) = usmc_set_mode host stack s (nat device) m
                in if r < 0 then (r, s1)
                   else (ERR_SUCCESS, s1\<lparr>v_mode := (v_mode s1)[nat device := m]\<rparr>)))"

section \<open>Parameters\<close>

text \<open>
  \<^verbatim>\<open>PARAMETERS_PACKET\<close> (57 bytes), with the offset of every field:
  \<open>DELAY1\<close> 0, \<open>DELAY2\<close> 1, \<open>RefINTimeout\<close> 2, \<open>BTIMEOUT1\<close> 4, \<open>BTIMEOUT2\<close> 6,
  \<open>BTIMEOUT3\<close> 8, \<open>BTIMEOUT4\<close> 10, \<open>BTIMEOUTR\<close> 12, \<open>BTIMEOUTD\<close> 14, \<open>MINPERIOD\<close> 16,
  \<open>BTO1P\<close> 18, \<open>BTO2P\<close> 20, \<open>BTO3P\<close> 22, \<open>BTO4P\<close> 24, \<open>MAX_LOFT\<close> 26, \<open>STARTPOS\<close> 28,
  \<open>RTDelta\<close> 32, \<open>RTMinError\<close> 34, \<open>MaxTemp\<close> 36, \<open>SynOUTP\<close> 38, \<open>LoftPeriod\<close> 39,
  \<open>EncVSCP\<close> 41, \<open>Reserved\<close> 42 to 56.
\<close>

text \<open>
  The conversions that \<^verbatim>\<open>usmc_set_parameters\<close> repeats, each operation in single
  precision. The constant \<^verbatim>\<open>0.152f\<close> is the \<^verbatim>\<open>float\<close> nearest to \<open>0.152\<close>; the other
  constants are exact.
\<close>

definition time_ticks :: "real \<Rightarrow> u16" where
  "time_ticks v = word_of_int (trunc (f32 (f32 (clamp v 1.0 9961.0 / f32 0.152) + 0.5)))"

definition speed_period :: "real \<Rightarrow> u16" where
  "speed_period v =
     word_of_int (trunc (f32 (f32 (65536.0 - f32 (125000.0 / clamp v 2.0 625.0)) + 0.5)))"

text \<open>
  The temperature limit is computed in \<^verbatim>\<open>double\<close>. \<open>MaxTemp_old\<close> is the branch for a
  firmware version below \<open>0x2400\<close>, \<open>MaxTemp_new\<close> the other one; \<open>3.3\<close> is the \<^verbatim>\<open>double\<close>
  nearest to it, and the value of \<^verbatim>\<open>exp\<close> is taken as the correctly rounded one.
\<close>

definition MaxTemp_old :: "real \<Rightarrow> real" where
  "MaxTemp_old t =
     (let t1 = f64 (10.0 * f64 (exp (f64 (3950.0 *
                 f64 (f64 (1.0 / f64 (t + 273.0)) - f64 (1.0 / 298.0))))))
      in f64 (f64 (f64 (f64 (f64 (5 * t1) / f64 (10 + t1)) * 65536.0) / f64 3.3) + 0.5))"

definition MaxTemp_new :: "real \<Rightarrow> real" where
  "MaxTemp_new t =
     (let t1 = f64 (f64 (f64 (t + 50.0) / 330.0) * 65536.0)
      in f64 (t1 + 0.5))"

definition MaxTemp_raw :: "u32 \<Rightarrow> real \<Rightarrow> u16" where
  "MaxTemp_raw version v =
     (let t = clamp v 0.0 100.0;
          t1 = (if version < 0x2400 then MaxTemp_old t else MaxTemp_new t)
      in word_of_int (trunc t1))"

text \<open>
  The loft period of line 848: zero stays zero, any other value goes through
  \<^verbatim>\<open>( uint16_t ) ( 65536.0f - ( 125000.0f / clamp ( params.LoftPeriod, 16.0f, 5000.0f ) ) + 0.5f )\<close>
  and \<^verbatim>\<open>PACK_WORD\<close>.
\<close>

definition loft_period :: "real \<Rightarrow> u16" where
  "loft_period v =
     word_of_int (trunc (f32 (f32 (65536.0 - f32 (125000.0 / clamp v 16.0 5000.0)) + 0.5)))"

definition LoftPeriod_raw :: "real \<Rightarrow> u16" where
  "LoftPeriod_raw v = (if v = 0.0 then 0 else PACK_WORD (loft_period v))"

definition memset :: "memory \<Rightarrow> nat \<Rightarrow> u8 \<Rightarrow> nat \<Rightarrow> memory" where
  "memset m off b n = (\<lambda>i. if off \<le> i \<and> i < off + n then b else m i)"

definition parameters_packet :: "memory \<Rightarrow> u32 \<Rightarrow> USMC_Parameters \<Rightarrow> memory" where
  "parameters_packet stack version params =
     (let p0 = write_u8 stack 0
                 (word_of_int (clamp (trunc (f32 (f32 (AccelT params / 98.0) + 0.5))) 1 15));
          p1 = write_u8 p0 1
                 (word_of_int (clamp (trunc (f32 (f32 (DecelT params / 98.0) + 0.5))) 1 15));
          p2 = write_u16 p1 2 (time_ticks (PTimeout params));
          p3 = write_u16 p2 4 (PACK_WORD (time_ticks (BTimeout1 params)));
          p4 = write_u16 p3 6 (PACK_WORD (time_ticks (BTimeout2 params)));
          p5 = write_u16 p4 8 (PACK_WORD (time_ticks (BTimeout3 params)));
          p6 = write_u16 p5 10 (PACK_WORD (time_ticks (BTimeout4 params)));
          p7 = write_u16 p6 12 (PACK_WORD (time_ticks (BTimeoutR params)));
          p8 = write_u16 p7 14 (PACK_WORD (time_ticks (BTimeoutD params)));
          p9 = write_u16 p8 16 (PACK_WORD (speed_period (MinP params)));
          p10 = write_u16 p9 18 (PACK_WORD (speed_period (BTO1P params)));
          p11 = write_u16 p10 20 (PACK_WORD (speed_period (BTO2P params)));
          p12 = write_u16 p11 22 (PACK_WORD (speed_period (BTO3P params)));
          p13 = write_u16 p12 24 (PACK_WORD (speed_period (BTO4P params)));
          p14 = write_u16 p13 26
                  (PACK_WORD (word_of_int (clamp (uint (MaxLoft params)) 1 1023 * 64)));
          p15 = (if version < 0x2407 then write_u32 p14 28 0x00000000
                 else write_u32 p14 28 (PACK_DWORD (StartPos params * 8 AND 0xFFFFFF00)));
          p16 = write_u16 p15 32
                  (PACK_WORD (word_of_int (clamp (uint (RTDelta params)) 4 1023 * 64)));
          p17 = write_u16 p16 34
                  (PACK_WORD (word_of_int (clamp (uint (RTMinError params)) 4 1023 * 64)));
          p18 = write_u16 p17 36 (PACK_WORD (MaxTemp_raw version (MaxTemp params)));
          p19 = write_u8 p18 38 (SynOUTP params);
          p20 = write_u16 p19 39 (LoftPeriod_raw (LoftPeriod params));
          p21 = write_u8 p20 41 (word_of_int (trunc (f32 (f32 (EncMult params * 4.0) + 0.5))))
      in memset p21 42 0 15)"

text \<open>The arguments of the call of \<^verbatim>\<open>libusb_control_transfer\<close> in \<^verbatim>\<open>usmc_set_parameters\<close>.\<close>

definition parameters_request ::
  "memory \<Rightarrow> USMC_impl \<Rightarrow> nat \<Rightarrow> USMC_Parameters \<Rightarrow> control_transfer" where
  "parameters_request stack s dev_id params =
     (let setParametersData = parameters_packet stack (v_version s ! dev_id) params
      in \<lparr>handle = v_dev s ! dev_id,
          bmRequestType = LIBUSB_ENDPOINT_OUT OR LIBUSB_RECIPIENT_DEVICE OR LIBUSB_REQUEST_TYPE_VENDOR,
          bRequest = 0x83,
          wValue = FIRST_WORD_SWAPPED setParametersData,
          wIndex = SECOND_WORD setParametersData,
          payload = read_bytes setParametersData 4 0x35,
          wLength = 0x0035\<rparr>)"

definition usmc_set_parameters ::
  "usb_host \<Rightarrow> memory \<Rightarrow> USMC_impl \<Rightarrow> nat \<Rightarrow> USMC_Parameters \<Rightarrow> int \<times> USMC_impl" where
  "usmc_set_parameters host stack s dev_id params =
     (let (res, s1) = locked_transfer host s dev_id (parameters_request stack s dev_id params)
      in if fst res < 0 then (fst res, s1) else (0, s1))"

definition getParameters ::
  "USMC_impl \<Rightarrow> int \<Rightarrow> USMC_Parameters option \<Rightarrow> int \<times> USMC_Parameters option" where
  "getParameters s device parameters =
     (if \<not> checkDevice s device then (ERR_INVALID_ID, parameters)
      else if parameters = None then (ERR_INVALID_PARAM, parameters)
      else (ERR_SUCCESS, Some (v_params s ! nat device)))"

definition setParameters ::
  "usb_host \<Rightarrow> memory \<Rightarrow> USMC_impl \<Rightarrow> int \<Rightarrow> USMC_Parameters option \<Rightarrow> int \<times> USMC_impl" where
  "setParameters host stack s device parameters =
     (if \<not> checkDevice s device then (ERR_INVALID_ID, s)
      else case parameters of
        None \<Rightarrow> (ERR_INVALID_PARAM, s)
      | Some p \<Rightarrow>
         if AccelT p < 49.0 \<or> AccelT p > 1518.0 then (ERR_INVALID_VALUE, s)
         else if DecelT p < 49.0 \<or> DecelT p > 1518.0 then (ERR_INVALID_VALUE, s)
         else if PTimeout p < 1.0 \<or> PTimeout p > 9961.0 then (ERR_INVALID_VALUE, s)
         else if BTimeout1 p < 1.0 \<or> BTimeout1 p > 9961.0 then (ERR_INVALID_VALUE, s)
         else if BTimeout2 p < 1.0 \<or> BTimeout2 p > 9961.0 then (ERR_INVALID_VALUE, s)
         else if BTimeout3 p < 1.0 \<or> BTimeout3 p > 9961.0 then (ERR_INVALID_VALUE, s)
         else if BTimeout4 p < 1.0 \<or> BTimeout4 p > 9961.0 then (ERR_INVALID_VALUE, s)
         else if BTimeoutR p < 1.0 \<or> BTimeoutR p > 9961.0 then (ERR_INVALID_VALUE, s)
         else if BTimeoutD p < 1.0 \<or> BTimeoutD p > 9961.0 then (ERR_INVALID_VALUE, s)
         else if MaxLoft p < 1 \<or> MaxLoft p > 1023 then (ERR_INVALID_VALUE, s)
         else if RTDelta p < 4 \<or> RTDelta p > 1023 then (ERR_INVALID_VALUE, s)
         else if RTMinError p < 4 \<or> RTMinError p > 1023 then (ERR_INVALID_VALUE, s)
         else if MaxTemp p < 0.0 \<or> MaxTemp p > 100.0 then (ERR_INVALID_VALUE, s)
         else if MinP p < 2.0 \<or> MinP p > 625.0 then (ERR_INVALID_VALUE, s)
         else if BTO1P p < 2.0 \<or> BTO1P p > 625.0 then (ERR_INVALID_VALUE, s)
         else if BTO2P p < 2.0 \<or> BTO2P p > 625.0 then (ERR_INVALID_VALUE, s)
         else if BTO3P p < 2.0 \<or> BTO3P p > 625.0 then (ERR_INVALID_VALUE, s)
         else if BTO4P p < 2.0 \<or> BTO4P p > 625.0 then (ERR_INVALID_VALUE, s)
         else if LoftPeriod p \<noteq> 0 \<and> (LoftPeriod p < 16.0 \<or> LoftPeriod p > 5000.0)
           then (ERR_INVALID_VALUE, s)
         else (let (r, s1) = usmc_set_parameters host stack s (nat device) p
               in if r < 0 then (r, s1)
                  else (ERR_SUCCESS, s1\<lparr>v_params := (v_params s1)[nat device := p]\<rparr>)))"

section \<open>State\<close>

text \<open>
  \<^verbatim>\<open>STATE_PACKET\<close> (11 bytes): \<open>CurPos\<close> at offset 0, \<open>Temp\<close> at offset 4; byte 6 holds
  \<open>M1\<close>, \<open>M2\<close>, \<open>LOFT\<close>, \<open>REFIN\<close>, \<open>CW_CCW\<close>, \<open>RESET\<close>, \<open>FULLSPEED\<close>, \<open>AFTRESET\<close>; byte 7
  holds \<open>RUN\<close>, \<open>SYNCIN\<close>, \<open>SYNCOUT\<close>, \<open>ROTTR\<close>, \<open>ROTTRERR\<close>, \<open>EMRESET\<close>, \<open>TRAILER1\<close>,
  \<open>TRAILER2\<close>; byte 8 holds \<open>USBPOW\<close>, \<open>UNKNOWN\<close> and \<open>Working\<close>; \<open>Voltage\<close> is at offset 9.
\<close>

text \<open>
  Integer division of C++ truncates towards zero. The temperature and the voltage of
  the read path are the real numbers that their formulas denote: the rounding of the
  \<^verbatim>\<open>double\<close> operations and of the conversion to \<^verbatim>\<open>float\<close> is not applied to them.
\<close>

definition cdiv :: "int \<Rightarrow> int \<Rightarrow> int" where
  "cdiv a b = sgn a * sgn b * (\<bar>a\<bar> div \<bar>b\<bar>)"

definition state_Temp :: "u32 \<Rightarrow> u16 \<Rightarrow> real" where
  "state_Temp version raw =
     (let t = real (unat raw)
      in if version < 0x2400
         then (let t1 = t * 3.3 / 65536.0;
                   t2 = t1 * 10.0 / (5.0 - t1);
                   t3 = (1.0 / 298.0) + (1.0 / 3950.0) * ln (t2 / 10.0)
               in 1.0 / t3 - 273.0)
         else ((t * 3.3 * 100.0 / 65536.0) - 50.0))"

definition state_Voltage :: "u16 \<Rightarrow> real" where
  "state_Voltage raw =
     (let v = real (unat raw) / 65536.0 * 3.3 * 20.0
      in if v < 5.0 then 0.0 else v)"

definition state_of_packet :: "u32 \<Rightarrow> memory \<Rightarrow> USMC_State" where
  "state_of_packet version getStateData =
     \<lparr>CurPos = cdiv (sint (read_u32 getStateData 0)) 8,
      Temp = state_Temp version (read_u16 getStateData 4),
      USMC_State.SDivisor =
        push_bit (unat (push_bit 1 (of_bool (read_bit getStateData 6 1)) OR
                        of_bool (read_bit getStateData 6 0) :: u8)) 1,
      Loft = read_bit getStateData 6 2,
      FullPower = read_bit getStateData 6 3,
      CW_CCW = read_bit getStateData 6 4,
      Power = read_bit getStateData 6 5,
      FullSpeed = read_bit getStateData 6 6,
      AReset = read_bit getStateData 6 7,
      RUN = read_bit getStateData 7 0,
      SyncIN = read_bit getStateData 7 1,
      SyncOUT = read_bit getStateData 7 2,
      RotTr = read_bit getStateData 7 3,
      RotTrErr = read_bit getStateData 7 4,
      EmReset = read_bit getStateData 7 5,
      Trailer1 = read_bit getStateData 7 6,
      Trailer2 = read_bit getStateData 7 7,
      Voltage = state_Voltage (read_u16 getStateData 9)\<rparr>"

text \<open>
  The caller's structure is passed in and handed back: it is left as it was when the
  transfer fails.
\<close>

definition state_request :: "USMC_impl \<Rightarrow> nat \<Rightarrow> control_transfer" where
  "state_request s dev_id =
     \<lparr>handle = v_dev s ! dev_id,
      bmRequestType = LIBUSB_ENDPOINT_IN OR LIBUSB_RECIPIENT_DEVICE OR LIBUSB_REQUEST_TYPE_VENDOR,
      bRequest = 0x82,
      wValue = 0x0000,
      wIndex = 0x0000,
      payload = [],
      wLength = 11\<rparr>"

definition usmc_get_state ::
  "usb_host \<Rightarrow> USMC_impl \<Rightarrow> nat \<Rightarrow> USMC_State \<Rightarrow> int \<times> USMC_State \<times> USMC_impl" where
  "usmc_get_state host s dev_id state =
     (let (res, s1) = locked_transfer host s dev_id (state_request s dev_id)
      in if fst res < 0 then (fst res, state, s1)
         else (0, state_of_packet (v_version s ! dev_id) (snd res), s1))"

definition getState ::
  "usb_host \<Rightarrow> USMC_impl \<Rightarrow> int \<Rightarrow> USMC_State option \<Rightarrow> int \<times> USMC_State option \<times> USMC_impl" where
  "getState host s device state =
     (if \<not> checkDevice s device then (ERR_INVALID_ID, state, s)
      else case state of
             None \<Rightarrow> (ERR_INVALID_PARAM, state, s)
           | Some st \<Rightarrow>
               (let (r, st1, s1) = usmc_get_state host s (nat device) st
                in (r, Some st1, s1)))"

section \<open>Attaching a device\<close>

text \<open>
  The constructor leaves every vector empty. For a candidate that opened and answered,
  \<^verbatim>\<open>probeDevices\<close> pushes the handle, a mutex, the three structures and the speed
  \<open>200.0\<close>, then the serial number and the firmware version it read, and calls
  \<^verbatim>\<open>initDefaults\<close>. \<open>attach\<close> is this sequence of updates of the registry; the serial
  number and the version are the ones the device reported. (The structures come from
  \<^verbatim>\<open>new\<close> and are overwritten by \<^verbatim>\<open>initDefaults\<close> before they are read.) The transfers
  that probing makes (reading the serial number and the version, writing the defaults to
  the device) are not part of \<open>attach\<close>: the log of the registry it returns is the
  history of the bus since before the device was attached.
\<close>

definition USMC_impl_new :: USMC_impl where
  "USMC_impl_new =
     \<lparr>v_dev = [], v_version = [], v_serial = [], v_speed = [], v_params = [], v_mode = [],
      v_start_params = [], usb_log = []\<rparr>"

definition attach :: "USMC_impl \<Rightarrow> nat \<Rightarrow> string \<Rightarrow> u32 \<Rightarrow> USMC_impl" where
  "attach s dev_h serial version =
     (let dev_id = length (v_dev s);
          s1 = s\<lparr>v_dev := v_dev s @ [dev_h],
                 v_params := v_params s @ [zero_Parameters],
                 v_mode := v_mode s @ [zero_Mode],
                 v_start_params := v_start_params s @ [zero_StartParameters],
                 v_speed := v_speed s @ [200.0]\<rparr>;
          s2 = s1\<lparr>v_serial := v_serial s1 @ [serial]\<rparr>;
          s3 = s2\<lparr>v_version := v_version s2 @ [version]\<rparr>
      in initDefaults s3 dev_id)"

text \<open>A registry with one device of firmware version \<open>0x2407\<close>, and a bus that always succeeds.\<close>

definition one_device :: USMC_impl where
  "one_device = attach USMC_impl_new 1 ''0000000000001234'' 0x2407"

definition host_ok :: usb_host where
  "host_ok tr ct = (int (unat (wLength ct)), (\<lambda>i. 0))"

definition host_timeout :: usb_host where
  "host_timeout tr ct = (- 7, (\<lambda>i. 0))"

definition stack0 :: memory where
  "stack0 = (\<lambda>i. 0)"

definition stack1 :: memory where
  "stack1 = (\<lambda>i. 0xFF)"

text \<open>
  A caller's \<^verbatim>\<open>USMC_State\<close> before the call, and a bus whose answer to every request is
  a buffer of zeros with the bytes \<open>00 80\<close> at offsets 4 and 5: as a state packet it
  reports the raw temperature \<open>32768\<close>.
\<close>

definition zero_State :: USMC_State where
  "zero_State =
     \<lparr>CurPos = 0, Temp = 0, USMC_State.SDivisor = 0, Loft = False, FullPower = False,
      CW_CCW = False, Power = False, FullSpeed = False, AReset = False, RUN = False,
      SyncIN = False, SyncOUT = False, RotTr = False, RotTrErr = False, EmReset = False,
      Trailer1 = False, Trailer2 = False, Voltage = 0\<rparr>"

definition host_temp32768 :: usb_host where
  "host_temp32768 tr ct = (int (unat (wLength ct)), (\<lambda>i. if i = 5 then 0x80 else 0x00))"

text \<open>Start parameters with a step divisor that is not one of 1, 2, 4 and 8.\<close>

definition divisor3 :: USMC_StartParameters where
  "divisor3 = zero_StartParameters\<lparr>USMC_StartParameters.SDivisor := 3\<rparr>"

text \<open>
  The results of the bus are those of libusb: a byte count, or one of the error codes
  that \<^verbatim>\<open>libusmc.h\<close> lists as \<^verbatim>\<open>ERR_USB_IO\<close> (\<open>-1\<close>) to \<^verbatim>\<open>ERR_USB_NOT_SUPPORTED\<close> (\<open>-12\<close>)
  and \<^verbatim>\<open>ERR_USB_OTHER\<close> (\<open>-99\<close>).
\<close>

definition libusb_host :: "usb_host \<Rightarrow> bool" where
  "libusb_host host =
     (\<forall>tr ct. 0 \<le> fst (host tr ct) \<or>
        fst (host tr ct) \<in> {- 1, - 2, - 3, - 4, - 5, - 6, - 7, - 8, - 9, - 10, - 11, - 12, - 99})"

text \<open>The range checks of \<^verbatim>\<open>setParameters\<close>, in its order, as one predicate.\<close>

definition values_in_range :: "USMC_Parameters \<Rightarrow> bool" where
  "values_in_range p =
     (\<not> (AccelT p < 49.0 \<or> AccelT p > 1518.0) \<and>
      \<not> (DecelT p < 49.0 \<or> DecelT p > 1518.0) \<and>
      \<not> (PTimeout p < 1.0 \<or> PTimeout p > 9961.0) \<and>
      \<not> (BTimeout1 p < 1.0 \<or> BTimeout1 p > 9961.0) \<and>
      \<not> (BTimeout2 p < 1.0 \<or> BTimeout2 p > 9961.0) \<and>
      \<not> (BTimeout3 p < 1.0 \<or> BTimeout3 p > 9961.0) \<and>
      \<not> (BTimeout4 p < 1.0 \<or> BTimeout4 p > 9961.0) \<and>
      \<not> (BTimeoutR p < 1.0 \<or> BTimeoutR p > 9961.0) \<and>
      \<not> (BTimeoutD p < 1.0 \<or> BTimeoutD p > 9961.0) \<and>
      \<not> (MaxLoft p < 1 \<or> MaxLoft p > 1023) \<and>
      \<not> (RTDelta p < 4 \<or> RTDelta p > 1023) \<and>
      \<not> (RTMinError p < 4 \<or> RTMinError p > 1023) \<and>
      \<not> (MaxTemp p < 0.0 \<or> MaxTemp p > 100.0) \<and>
      \<not> (MinP p < 2.0 \<or> MinP p > 625.0) \<and>
      \<not> (BTO1P p < 2.0 \<or> BTO1P p > 625.0) \<and>
      \<not> (BTO2P p < 2.0 \<or> BTO2P p > 625.0) \<and>
      \<not> (BTO3P p < 2.0 \<or> BTO3P p > 625.0) \<and>
      \<not> (BTO4P p < 2.0 \<or> BTO4P p > 625.0) \<and>
      \<not> (LoftPeriod p \<noteq> 0 \<and> (LoftPeriod p < 16.0 \<or> LoftPeriod p > 5000.0)))"

text \<open>
  A mode with two flags and a count whose bytes differ, and the default parameters with
  \<open>BTimeoutD\<close> (which \<^verbatim>\<open>initDefaults\<close> leaves at 0) set to a value in its range.
\<close>

definition sample_Mode :: USMC_Mode where
  "sample_Mode = zero_Mode\<lparr>PMode := True, SyncOUTEn := True, SyncCount := 0x0A0B0C0D\<rparr>"

definition sample_Parameters :: USMC_Parameters where
  "sample_Parameters = (v_params one_device ! 0)\<lparr>BTimeoutD := 500.0\<rparr>"

section \<open>The word-swap convention in the words of the specification\<close>

text \<open>
  The specification describes one convention for every write packet: the first four
  bytes travel in the two 16-bit parameters, the low word (bytes 0 and 1) most
  significant byte first, the high word (bytes 2 and 3) in its natural order, and the
  bytes from offset 4 to the end of the packet are the payload. \<open>spec_request\<close> is that
  description for a packet of \<open>n\<close> bytes, to be compared with the three requests of the
  source.
\<close>

definition spec_wValue :: "memory \<Rightarrow> u16" where
  "spec_wValue pkt = push_bit 8 (ucast (pkt 0)) OR ucast (pkt 1)"

definition spec_wIndex :: "memory \<Rightarrow> u16" where
  "spec_wIndex pkt = ucast (pkt 2) OR push_bit 8 (ucast (pkt 3))"

definition spec_payload :: "memory \<Rightarrow> nat \<Rightarrow> u8 list" where
  "spec_payload pkt n = map pkt [4..<n]"

section \<open>Properties\<close>

lemmas one_device_defs =
  one_device_def attach_def USMC_impl_new_def initDefaults_def zero_Mode_def
  zero_Parameters_def zero_StartParameters_def Let_def

lemma one_device_valid: "checkDevice one_device 0"
  by (simp add: checkDevice_def one_device_defs)

lemma one_device_log: "usb_log one_device = []"
  by (simp add: one_device_defs)

subsection \<open>Setting the current position never reaches the wire\<close>

text \<open>
  C1. For every valid device id, \<^verbatim>\<open>setCurrentPosition\<close> checks the id and stops: the
  registry, with its caches and the log of the bus, is what it was, and no value is
  returned. The wire routine \<^verbatim>\<open>usmc_set_current_position\<close> is not invoked: a call of it
  would have left its lock and its transfer in the log.
\<close>

theorem setCurrentPosition_never_reaches_wire:
  "checkDevice s device \<Longrightarrow>
     setCurrentPosition s device position = (None, s) \<and>
     usb_log (snd (usmc_set_current_position host stack s (nat device) position)) \<noteq> usb_log s"
  by (simp add: setCurrentPosition_def usmc_set_current_position_def locked_transfer_def
        Let_def split: prod.splits)

theorem setCurrentPosition_never_reaches_wire_witness:
  "checkDevice one_device 0 \<and>
   setCurrentPosition one_device 0 100 = (None, one_device) \<and>
   usb_log (snd (usmc_set_current_position host_ok stack0 one_device (nat 0) 100)) \<noteq> usb_log one_device"
proof -
  have valid: "checkDevice one_device 0"
    by (rule one_device_valid)
  from setCurrentPosition_never_reaches_wire [OF valid, of 100 host_ok stack0] valid
  show ?thesis by simp
qed

subsection \<open>The speed is cached, not written through\<close>

text \<open>
  C2, as the claim states it, fails: \<^verbatim>\<open>setSpeed\<close> on a valid device with a speed in
  range succeeds and changes the cached speed (from 200 to 300 here) while the log of the
  bus stays empty: no lock was taken and no transfer was made.
\<close>

theorem setSpeed_no_hardware_call_counterexample:
  "checkDevice one_device 0 \<and>
   fst (setSpeed one_device 0 300) = ERR_SUCCESS \<and>
   usb_log (snd (setSpeed one_device 0 300)) = [] \<and>
   v_speed one_device = [200] \<and>
   v_speed (snd (setSpeed one_device 0 300)) = [300]"
  by (simp add: setSpeed_def checkDevice_def one_device_defs)

text \<open>
  C2, amended. For every valid device id and every speed in \<open>[16, 5000]\<close>, \<^verbatim>\<open>setSpeed\<close>
  returns success and stores the speed in the cache of that device; it takes no lock
  and makes no transfer, and nothing else in the registry changes.
\<close>

theorem setSpeed_cache_only:
  "checkDevice s device \<Longrightarrow> 16 \<le> speed \<Longrightarrow> speed \<le> 5000 \<Longrightarrow>
     setSpeed s device speed =
       (ERR_SUCCESS, s\<lparr>v_speed := (v_speed s)[nat device := speed]\<rparr>) \<and>
     usb_log (snd (setSpeed s device speed)) = usb_log s"
  by (simp add: setSpeed_def)

theorem setSpeed_cache_only_witness:
  "checkDevice one_device 0 \<and> (16::real) \<le> 300 \<and> (300::real) \<le> 5000 \<and>
   setSpeed one_device 0 300 =
     (ERR_SUCCESS, one_device\<lparr>v_speed := (v_speed one_device)[nat 0 := 300]\<rparr>) \<and>
   usb_log (snd (setSpeed one_device 0 300)) = usb_log one_device"
proof -
  have valid: "checkDevice one_device 0"
    by (rule one_device_valid)
  have lo: "(16::real) \<le> 300" and hi: "(300::real) \<le> 5000"
    by simp_all
  from setSpeed_cache_only [OF valid lo hi] valid
  show ?thesis by simp
qed

subsection \<open>The byte macros and the bit-field writes\<close>

lemma LOBYTE_take: "LOBYTE w = take_bit 8 w"
  by (simp add: LOBYTE_def take_bit_eq_mask mask_eq_exp_minus_1)

lemma HIBYTE_take: "HIBYTE w = take_bit 8 (drop_bit 8 w)"
proof -
  have m: "(255 :: u32) = mask 8"
    by (simp add: mask_eq_exp_minus_1)
  have "HIBYTE w = drop_bit 8 w AND 255"
    by (simp add: HIBYTE_def)
  also have "\<dots> = take_bit 8 (drop_bit 8 w)"
    unfolding m by (simp add: take_bit_eq_mask)
  finally show ?thesis .
qed

lemma LOWORD_take: "LOWORD w = take_bit 16 w"
  by (simp add: LOWORD_def take_bit_eq_mask mask_eq_exp_minus_1)

lemma HIWORD_drop: "HIWORD w = drop_bit 16 w"
proof -
  have m: "(65535 :: u32) = mask 16"
    by (simp add: mask_eq_exp_minus_1)
  have "HIWORD w = drop_bit 16 w AND 65535"
    by (simp add: HIWORD_def)
  also have "\<dots> = take_bit 16 (drop_bit 16 w)"
    unfolding m by (simp add: take_bit_eq_mask)
  also have "\<dots> = drop_bit 16 w"
    by (rule bit_word_eqI) (auto simp add: bit_simps dest: bit_imp_le_length)
  finally show ?thesis .
qed

lemma PACK_DWORD_narrow:
  "(ucast (PACK_DWORD w) :: u16) = ucast (drop_bit 24 w) OR push_bit 8 (ucast (take_bit 8 (drop_bit 16 w)))"
  unfolding PACK_DWORD_def HIBYTE_take LOBYTE_take LOWORD_take HIWORD_drop
  by (rule bit_word_eqI) (auto simp add: bit_simps dest: bit_imp_le_length)


lemma write_bit_other: "off' \<noteq> off \<Longrightarrow> write_bit m off n v off' = m off'"
  by (simp add: write_bit_def)

lemma write_bit_same:
  "bit (write_bit m off n v off) k \<longleftrightarrow> (if k = n then v \<and> n < 8 else bit (m off) k)"
  by (auto simp add: write_bit_def bit_simps dest: bit_imp_le_length)

lemma bit_u8_cases:
  "bit (b :: u8) k \<Longrightarrow> k = 0 \<or> k = 1 \<or> k = 2 \<or> k = 3 \<or> k = 4 \<or> k = 5 \<or> k = 6 \<or> k = 7"
  by (drule bit_imp_le_length) (simp, arith)

lemma bit_int_pow2:
  "bit (2 :: int) k \<longleftrightarrow> k = 1"
  "bit (4 :: int) k \<longleftrightarrow> k = 2"
  "bit (8 :: int) k \<longleftrightarrow> k = 3"
  "bit (16 :: int) k \<longleftrightarrow> k = 4"
  "bit (32 :: int) k \<longleftrightarrow> k = 5"
  "bit (64 :: int) k \<longleftrightarrow> k = 6"
  "bit (128 :: int) k \<longleftrightarrow> k = 7"
proof -
  have e: "(2 :: int) = 2 ^ 1" "(4 :: int) = 2 ^ 2" "(8 :: int) = 2 ^ 3" "(16 :: int) = 2 ^ 4"
    "(32 :: int) = 2 ^ 5" "(64 :: int) = 2 ^ 6" "(128 :: int) = 2 ^ 7"
    by simp_all
  show "bit (2 :: int) k \<longleftrightarrow> k = 1"
    by (subst e(1)) (simp only: bit_exp_iff, simp)
  show "bit (4 :: int) k \<longleftrightarrow> k = 2"
    by (subst e(2)) (simp only: bit_exp_iff, simp)
  show "bit (8 :: int) k \<longleftrightarrow> k = 3"
    by (subst e(3)) (simp only: bit_exp_iff, simp)
  show "bit (16 :: int) k \<longleftrightarrow> k = 4"
    by (subst e(4)) (simp only: bit_exp_iff, simp)
  show "bit (32 :: int) k \<longleftrightarrow> k = 5"
    by (subst e(5)) (simp only: bit_exp_iff, simp)
  show "bit (64 :: int) k \<longleftrightarrow> k = 6"
    by (subst e(6)) (simp only: bit_exp_iff, simp)
  show "bit (128 :: int) k \<longleftrightarrow> k = 7"
    by (subst e(7)) (simp only: bit_exp_iff, simp)
qed

subsection \<open>The mode flags in the mode packet\<close>

text \<open>
  The bits of the three flag bytes after \<^verbatim>\<open>usmc_set_mode\<close> has filled \<open>setModeData\<close>:
  every bit but \<open>BUTSWAP\<close> is the flag assigned to it, whatever the memory held before.
\<close>

lemma mode_packet_bit0:
  "bit (mode_packet stack mode 0) k \<longleftrightarrow>
     (k = 0 \<and> PMode mode) \<or> (k = 1 \<and> PReg mode) \<or> (k = 2 \<and> ResetD mode) \<or>
     (k = 3 \<and> EMReset mode) \<or> (k = 4 \<and> Tr1T mode) \<or> (k = 5 \<and> Tr2T mode) \<or>
     (k = 6 \<and> RotTrT mode) \<or> (k = 7 \<and> TrSwap mode)"
  unfolding mode_packet_def Let_def write_u16_def
  using bit_u8_cases [of "stack 0" k]
  by (auto simp add: write_bit_other write_bit_same)

lemma mode_packet_bit1:
  "bit (mode_packet stack mode (Suc 0)) k \<longleftrightarrow>
     (k = 0 \<and> Tr1En mode) \<or> (k = 1 \<and> Tr2En mode) \<or> (k = 2 \<and> RotTeEn mode) \<or>
     (k = 3 \<and> RotTrOp mode) \<or> (k = 4 \<and> Butt1T mode) \<or> (k = 5 \<and> Butt2T mode) \<or>
     (k = 6 \<and> bit (stack (Suc 0)) 6) \<or> (k = 7 \<and> ResetRT mode)"
  unfolding mode_packet_def Let_def write_u16_def
  using bit_u8_cases [of "stack (Suc 0)" k]
  by (auto simp add: write_bit_other write_bit_same)

lemma mode_packet_bit2:
  "bit (mode_packet stack mode 2) k \<longleftrightarrow>
     (k = 0 \<and> SyncOUTEn mode) \<or> (k = 1 \<and> USMC_Mode.SyncOUTR mode) \<or> (k = 2 \<and> SyncINOp mode) \<or>
     (k = 3 \<and> SyncInvert mode) \<or> (k = 4 \<and> EncoderEn mode) \<or> (k = 5 \<and> EncoderInv mode) \<or>
     (k = 6 \<and> ResBEnc mode) \<or> (k = 7 \<and> ResEnc mode)"
  unfolding mode_packet_def Let_def write_u16_def
  using bit_u8_cases [of "stack 2" k]
  by (auto simp add: write_bit_other write_bit_same)

lemma mode_packet_SYNCCOUNT:
  "mode_packet stack mode 3 = ucast (drop_bit 24 (SyncCount mode)) \<and>
   mode_packet stack mode 4 = ucast (drop_bit 16 (SyncCount mode))"
  unfolding mode_packet_def Let_def write_u16_def PACK_DWORD_narrow
  by (intro conjI; simp; rule bit_word_eqI) (auto simp add: bit_simps dest: bit_imp_le_length)

lemma mode_packet_behind: "5 \<le> i \<Longrightarrow> mode_packet stack mode i = stack i"
  unfolding mode_packet_def Let_def write_u16_def
  by (simp add: write_bit_other)

lemma read_bytes_0_7: "read_bytes m 0 7 = [m 0, m (Suc 0), m 2, m 3, m 4, m 5, m 6]"
  by (simp add: read_bytes_def upt_rec eval_nat_numeral)

lemma mode_packet_read:
  "read_bytes (mode_packet stack mode) 0 7 =
     [mode_packet stack mode 0, mode_packet stack mode (Suc 0), mode_packet stack mode 2,
      ucast (drop_bit 24 (SyncCount mode)), ucast (drop_bit 16 (SyncCount mode)),
      stack 5, stack 6]"
  by (simp add: read_bytes_0_7 mode_packet_SYNCCOUNT mode_packet_behind)

lemmas mode_bits = mode_packet_bit0 mode_packet_bit1 mode_packet_bit2 bit_int_pow2
  bit_and_iff bit_or_iff bit_1_iff zero_Mode_def

text \<open>
  C3. With one flag of \<^verbatim>\<open>USMC_Mode\<close> set and all the others (and \<open>SyncCount\<close>) zero, the
  packet holds that flag at the bit \<^verbatim>\<open>MODE_PACKET\<close> declares for it (the first field of
  a byte is bit 0) and no other bit is set by the packing: bytes 0 to 4 are listed for
  each of the 23 flags. The bit \<open>BUTSWAP\<close> (\<open>0x40\<close> of byte 1) is never assigned, and bytes
  5 and 6 lie behind the five-byte structure: both keep what the memory held, for every
  flag alike. Reading a flag's bit back gives the flag, for every mode.
\<close>

theorem mode_flags_documented_bits:
  "((read_bytes (mode_packet stack (zero_Mode\<lparr>PMode := True\<rparr>)) 0 7 =
      [0x01, stack 1 AND 0x40, 0x00, 0, 0, stack 5, stack 6]) \<and>
   (read_bytes (mode_packet stack (zero_Mode\<lparr>PReg := True\<rparr>)) 0 7 =
      [0x02, stack 1 AND 0x40, 0x00, 0, 0, stack 5, stack 6]) \<and>
   (read_bytes (mode_packet stack (zero_Mode\<lparr>ResetD := True\<rparr>)) 0 7 =
      [0x04, stack 1 AND 0x40, 0x00, 0, 0, stack 5, stack 6]) \<and>
   (read_bytes (mode_packet stack (zero_Mode\<lparr>EMReset := True\<rparr>)) 0 7 =
      [0x08, stack 1 AND 0x40, 0x00, 0, 0, stack 5, stack 6]) \<and>
   (read_bytes (mode_packet stack (zero_Mode\<lparr>Tr1T := True\<rparr>)) 0 7 =
      [0x10, stack 1 AND 0x40, 0x00, 0, 0, stack 5, stack 6]) \<and>
   (read_bytes (mode_packet stack (zero_Mode\<lparr>Tr2T := True\<rparr>)) 0 7 =
      [0x20, stack 1 AND 0x40, 0x00, 0, 0, stack 5, stack 6]) \<and>
   (read_bytes (mode_packet stack (zero_Mode\<lparr>RotTrT := True\<rparr>)) 0 7 =
      [0x40, stack 1 AND 0x40, 0x00, 0, 0, stack 5, stack 6]) \<and>
   (read_bytes (mode_packet stack (zero_Mode\<lparr>TrSwap := True\<rparr>)) 0 7 =
      [0x80, stack 1 AND 0x40, 0x00, 0, 0, stack 5, stack 6]) \<and>
   (read_bytes (mode_packet stack (zero_Mode\<lparr>Tr1En := True\<rparr>)) 0 7 =
      [0x00, stack 1 AND 0x40 OR 0x01, 0x00, 0, 0, stack 5, stack 6]) \<and>
   (read_bytes (mode_packet stack (zero_Mode\<lparr>Tr2En := True\<rparr>)) 0 7 =
      [0x00, stack 1 AND 0x40 OR 0x02, 0x00, 0, 0, stack 5, stack 6]) \<and>
   (read_bytes (mode_packet stack (zero_Mode\<lparr>RotTeEn := True\<rparr>)) 0 7 =
      [0x00, stack 1 AND 0x40 OR 0x04, 0x00, 0, 0, stack 5, stack 6]) \<and>
   (read_bytes (mode_packet stack (zero_Mode\<lparr>RotTrOp := True\<rparr>)) 0 7 =
      [0x00, stack 1 AND 0x40 OR 0x08, 0x00, 0, 0, stack 5, stack 6]) \<and>
   (read_bytes (mode_packet stack (zero_Mode\<lparr>Butt1T := True\<rparr>)) 0 7 =
      [0x00, stack 1 AND 0x40 OR 0x10, 0x00, 0, 0, stack 5, stack 6]) \<and>
   (read_bytes (mode_packet stack (zero_Mode\<lparr>Butt2T := True\<rparr>)) 0 7 =
      [0x00, stack 1 AND 0x40 OR 0x20, 0x00, 0, 0, stack 5, stack 6]) \<and>
   (read_bytes (mode_packet stack (zero_Mode\<lparr>ResetRT := True\<rparr>)) 0 7 =
      [0x00, stack 1 AND 0x40 OR 0x80, 0x00, 0, 0, stack 5, stack 6]) \<and>
   (read_bytes (mode_packet stack (zero_Mode\<lparr>SyncOUTEn := True\<rparr>)) 0 7 =
      [0x00, stack 1 AND 0x40, 0x01, 0, 0, stack 5, stack 6]) \<and>
   (read_bytes (mode_packet stack (zero_Mode\<lparr>USMC_Mode.SyncOUTR := True\<rparr>)) 0 7 =
      [0x00, stack 1 AND 0x40, 0x02, 0, 0, stack 5, stack 6]) \<and>
   (read_bytes (mode_packet stack (zero_Mode\<lparr>SyncINOp := True\<rparr>)) 0 7 =
      [0x00, stack 1 AND 0x40, 0x04, 0, 0, stack 5, stack 6]) \<and>
   (read_bytes (mode_packet stack (zero_Mode\<lparr>SyncInvert := True\<rparr>)) 0 7 =
      [0x00, stack 1 AND 0x40, 0x08, 0, 0, stack 5, stack 6]) \<and>
   (read_bytes (mode_packet stack (zero_Mode\<lparr>EncoderEn := True\<rparr>)) 0 7 =
      [0x00, stack 1 AND 0x40, 0x10, 0, 0, stack 5, stack 6]) \<and>
   (read_bytes (mode_packet stack (zero_Mode\<lparr>EncoderInv := True\<rparr>)) 0 7 =
      [0x00, stack 1 AND 0x40, 0x20, 0, 0, stack 5, stack 6]) \<and>
   (read_bytes (mode_packet stack (zero_Mode\<lparr>ResBEnc := True\<rparr>)) 0 7 =
      [0x00, stack 1 AND 0x40, 0x40, 0, 0, stack 5, stack 6]) \<and>
   (read_bytes (mode_packet stack (zero_Mode\<lparr>ResEnc := True\<rparr>)) 0 7 =
      [0x00, stack 1 AND 0x40, 0x80, 0, 0, stack 5, stack 6])) \<and>
   (read_bit (mode_packet stack mode) 0 0 = PMode mode \<and>
   read_bit (mode_packet stack mode) 0 1 = PReg mode \<and>
   read_bit (mode_packet stack mode) 0 2 = ResetD mode \<and>
   read_bit (mode_packet stack mode) 0 3 = EMReset mode \<and>
   read_bit (mode_packet stack mode) 0 4 = Tr1T mode \<and>
   read_bit (mode_packet stack mode) 0 5 = Tr2T mode \<and>
   read_bit (mode_packet stack mode) 0 6 = RotTrT mode \<and>
   read_bit (mode_packet stack mode) 0 7 = TrSwap mode \<and>
   read_bit (mode_packet stack mode) 1 0 = Tr1En mode \<and>
   read_bit (mode_packet stack mode) 1 1 = Tr2En mode \<and>
   read_bit (mode_packet stack mode) 1 2 = RotTeEn mode \<and>
   read_bit (mode_packet stack mode) 1 3 = RotTrOp mode \<and>
   read_bit (mode_packet stack mode) 1 4 = Butt1T mode \<and>
   read_bit (mode_packet stack mode) 1 5 = Butt2T mode \<and>
   read_bit (mode_packet stack mode) 1 7 = ResetRT mode \<and>
   read_bit (mode_packet stack mode) 2 0 = SyncOUTEn mode \<and>
   read_bit (mode_packet stack mode) 2 1 = USMC_Mode.SyncOUTR mode \<and>
   read_bit (mode_packet stack mode) 2 2 = SyncINOp mode \<and>
   read_bit (mode_packet stack mode) 2 3 = SyncInvert mode \<and>
   read_bit (mode_packet stack mode) 2 4 = EncoderEn mode \<and>
   read_bit (mode_packet stack mode) 2 5 = EncoderInv mode \<and>
   read_bit (mode_packet stack mode) 2 6 = ResBEnc mode \<and>
   read_bit (mode_packet stack mode) 2 7 = ResEnc mode)"
  (is "?single \<and> ?recovered")
proof
  show ?single
    by (simp add: mode_packet_read; intro conjI; rule bit_word_eqI; auto simp add: mode_bits)
  show ?recovered
    by (simp add: read_bit_def mode_packet_bit0 mode_packet_bit1 mode_packet_bit2)
qed

subsection \<open>What the wire routines leave in the log\<close>

lemma usmc_goto_eq:
  "usmc_goto host stack s d position speed params =
     (let ct = goto_request stack s d position speed params;
          r = fst (host (usb_log s @ [Acquire d]) ct)
      in (if r < 0 then r else 0, s\<lparr>usb_log := usb_log s @ [Acquire d, Transfer ct, Release d]\<rparr>))"
  by (simp add: usmc_goto_def locked_transfer_def Let_def)

lemma usmc_set_mode_eq:
  "usmc_set_mode host stack s d mode =
     (let ct = mode_request stack s d mode;
          r = fst (host (usb_log s @ [Acquire d]) ct)
      in (if r < 0 then r else 0, s\<lparr>usb_log := usb_log s @ [Acquire d, Transfer ct, Release d]\<rparr>))"
  by (simp add: usmc_set_mode_def locked_transfer_def Let_def)

lemma usmc_set_parameters_eq:
  "usmc_set_parameters host stack s d params =
     (let ct = parameters_request stack s d params;
          r = fst (host (usb_log s @ [Acquire d]) ct)
      in (if r < 0 then r else 0, s\<lparr>usb_log := usb_log s @ [Acquire d, Transfer ct, Release d]\<rparr>))"
  by (simp add: usmc_set_parameters_def locked_transfer_def Let_def)

lemma halvings_numeral:
  "halvings (numeral k) x = (if 2 \<le> x then Suc (halvings (pred_numeral k) (x / 2)) else 0)"
  by (simp add: numeral_eq_Suc)

lemma doublings_numeral:
  "doublings (numeral k) x = (if x < 1 then Suc (doublings (pred_numeral k) (2 * x)) else 0)"
  by (simp add: numeral_eq_Suc)

lemmas float_defs =
  f32_def f64_def fl_def exponent_def rne_def trunc_def clamp_def Let_def
  halvings_numeral doublings_numeral

lemma goto_TimerPeriod_200: "goto_TimerPeriod 200 = 60536"
  by (simp add: goto_TimerPeriod_def float_defs)

lemma PACK_WORD_60536: "PACK_WORD 60536 = 0x78EC"
  by (simp add: PACK_WORD_def HIBYTE_def LOBYTE_def)

lemma read_bytes_4_3: "read_bytes m 4 3 = [m 4, m 5, m 6]"
  by (simp add: read_bytes_def upt_rec eval_nat_numeral)

lemma read_bytes_0_4: "read_bytes m 0 4 = [m 0, m (Suc 0), m 2, m 3]"
  by (simp add: read_bytes_def upt_rec eval_nat_numeral)

lemmas wire_defs =
  goto_request_def goto_packet_def mode_request_def mode_packet_def
  write_u8_def write_u16_def write_u32_def write_bit_def read_u16_def read_bytes_4_3 read_bytes_0_4
  FIRST_WORD_def SECOND_WORD_def FIRST_WORD_SWAPPED_def SECOND_WORD_SWAPPED_def
  FIRST_BYTE_def SECOND_BYTE_def THIRD_BYTE_def FOURTH_BYTE_def
  LIBUSB_ENDPOINT_OUT_def LIBUSB_RECIPIENT_DEVICE_def LIBUSB_REQUEST_TYPE_VENDOR_def
  spec_wValue_def spec_wIndex_def

lemmas macro_defs = PACK_DWORD_def PACK_WORD_def HIBYTE_def LOBYTE_def HIWORD_def LOWORD_def

subsection \<open>The first four bytes of the write packets\<close>

text \<open>
  C5, as the claim states it, fails for the move and the set-mode packets. A move of the
  default device to position \<open>0x02040608\<close> builds a packet that starts with the bytes
  \<open>40 30 20 10\<close>: the stated convention gives \<open>wValue = 0x4030\<close> and \<open>wIndex = 0x1020\<close>,
  the driver sends \<open>wValue = 0x1020\<close> and \<open>wIndex = 0x3040\<close> (both words in natural
  order, and exchanged). Setting \<open>sample_Mode\<close> builds a packet that starts with
  \<open>01 00 01 0A\<close>: the stated convention gives \<open>wIndex = 0x0A01\<close>, the driver sends
  \<open>wIndex = 0x010A\<close> (the high word is byte-swapped too).
\<close>

theorem write_packets_one_convention_counterexample:
  "usb_log (snd (moveTo host_ok stack0 one_device 0 0x02040608)) =
     [Acquire 0,
      Transfer \<lparr>handle = 1, bmRequestType = 0x40, bRequest = 0x80, wValue = 0x1020,
                wIndex = 0x3040, payload = [0xEC, 0x78, 0x1B], wLength = 3\<rparr>,
      Release 0] \<and>
   read_bytes (goto_packet stack0 0x02040608 200 (v_start_params one_device ! 0)) 0 4 =
     [0x40, 0x30, 0x20, 0x10] \<and>
   spec_wValue (goto_packet stack0 0x02040608 200 (v_start_params one_device ! 0)) = 0x4030 \<and>
   spec_wIndex (goto_packet stack0 0x02040608 200 (v_start_params one_device ! 0)) = 0x1020 \<and>
   usb_log (snd (setMode host_ok stack0 one_device 0 (Some sample_Mode))) =
     [Acquire 0,
      Transfer \<lparr>handle = 1, bmRequestType = 0x40, bRequest = 0x81, wValue = 0x0100,
                wIndex = 0x010A, payload = [0x0B, 0x00, 0x00], wLength = 3\<rparr>,
      Release 0] \<and>
   read_bytes (mode_packet stack0 sample_Mode) 0 4 = [0x01, 0x00, 0x01, 0x0A] \<and>
   spec_wValue (mode_packet stack0 sample_Mode) = 0x0100 \<and>
   spec_wIndex (mode_packet stack0 sample_Mode) = 0x0A01"
  by (simp add: moveTo_def setMode_def checkDevice_def usmc_goto_eq usmc_set_mode_eq host_ok_def
        wire_defs macro_defs goto_TimerPeriod_200 sample_Mode_def stack0_def one_device_defs
        ERR_SUCCESS_def)

text \<open>
  C5, amended. Every write packet travels with its first four bytes in the two 16-bit
  parameters and with the bytes from offset 4 as payload, and each packet has its own
  byte order. Set-parameters follows the convention of the specification: bytes 0 and 1
  most significant byte first in \<open>wValue\<close>, bytes 2 and 3 in natural order in \<open>wIndex\<close>,
  the remaining 53 bytes as payload. Set-mode sends both words most significant byte
  first (bytes 0 and 1 in \<open>wValue\<close>, bytes 2 and 3 in \<open>wIndex\<close>), and a payload of three
  bytes that starts with byte 4. Move sends both words in natural order, bytes 0 and 1
  in \<open>wIndex\<close> and bytes 2 and 3 in \<open>wValue\<close>, and the remaining 3 bytes as payload.
\<close>

theorem write_packets_first_bytes_in_setup:
  "(let pkt = parameters_packet stack (v_version s ! d) p; ct = parameters_request stack s d p
    in usb_log (snd (usmc_set_parameters host stack s d p)) =
         usb_log s @ [Acquire d, Transfer ct, Release d] \<and>
       wValue ct = spec_wValue pkt \<and> wIndex ct = spec_wIndex pkt \<and>
       payload ct = spec_payload pkt 57) \<and>
   (let pkt = mode_packet stack m; ct = mode_request stack s d m
    in usb_log (snd (usmc_set_mode host stack s d m)) =
         usb_log s @ [Acquire d, Transfer ct, Release d] \<and>
       wValue ct = spec_wValue pkt \<and>
       wIndex ct = push_bit 8 (ucast (pkt 2)) OR ucast (pkt 3) \<and>
       length (payload ct) = 3 \<and> payload ct ! 0 = pkt 4) \<and>
   (let pkt = goto_packet stack position speed sp; ct = goto_request stack s d position speed sp
    in usb_log (snd (usmc_goto host stack s d position speed sp)) =
         usb_log s @ [Acquire d, Transfer ct, Release d] \<and>
       wIndex ct = ucast (pkt 0) OR push_bit 8 (ucast (pkt 1)) \<and>
       wValue ct = spec_wIndex pkt \<and>
       payload ct = spec_payload pkt 7)"
  by (simp add: usmc_goto_eq usmc_set_mode_eq usmc_set_parameters_eq Let_def
        parameters_request_def mode_request_def goto_request_def
        spec_wValue_def spec_wIndex_def spec_payload_def read_bytes_def read_u16_def
        FIRST_WORD_def SECOND_WORD_def FIRST_WORD_SWAPPED_def SECOND_WORD_SWAPPED_def
        FIRST_BYTE_def SECOND_BYTE_def THIRD_BYTE_def FOURTH_BYTE_def upt_rec)

subsection \<open>The setters as one case distinction\<close>

lemma setParameters_eq:
  "setParameters host stack s device parameters =
     (if \<not> checkDevice s device then (ERR_INVALID_ID, s)
      else case parameters of
        None \<Rightarrow> (ERR_INVALID_PARAM, s)
      | Some p \<Rightarrow>
          if \<not> values_in_range p then (ERR_INVALID_VALUE, s)
          else (let ct = parameters_request stack s (nat device) p;
                    r = fst (host (usb_log s @ [Acquire (nat device)]) ct);
                    s1 = s\<lparr>usb_log := usb_log s @ [Acquire (nat device), Transfer ct, Release (nat device)]\<rparr>
                in if r < 0 then (r, s1)
                   else (ERR_SUCCESS, s1\<lparr>v_params := (v_params s)[nat device := p]\<rparr>)))"
  by (auto simp add: setParameters_def values_in_range_def usmc_set_parameters_eq Let_def
        split: option.splits)

lemma setMode_eq:
  "setMode host stack s device mode =
     (if \<not> checkDevice s device then (ERR_INVALID_ID, s)
      else case mode of
        None \<Rightarrow> (ERR_INVALID_PARAM, s)
      | Some m \<Rightarrow>
          (let ct = mode_request stack s (nat device) m;
               r = fst (host (usb_log s @ [Acquire (nat device)]) ct);
               s1 = s\<lparr>usb_log := usb_log s @ [Acquire (nat device), Transfer ct, Release (nat device)]\<rparr>
           in if r < 0 then (r, s1)
              else (ERR_SUCCESS, s1\<lparr>v_mode := (v_mode s)[nat device := m]\<rparr>)))"
  by (simp add: setMode_def usmc_set_mode_eq Let_def split: option.splits)

lemma setParameters_reaches_wire:
  "usb_log (snd (setParameters host stack s device parameters)) \<noteq> usb_log s \<longleftrightarrow>
     checkDevice s device \<and> (\<exists>p. parameters = Some p \<and> values_in_range p)"
  by (auto simp add: setParameters_eq Let_def split: option.splits)

lemma sample_Parameters_in_range: "values_in_range sample_Parameters"
  by (simp add: values_in_range_def sample_Parameters_def one_device_defs)

lemma libusb_host_not_validation:
  assumes "libusb_host host"
  shows "fst (host tr ct) \<noteq> ERR_INVALID_ID \<and> fst (host tr ct) \<noteq> ERR_INVALID_PARAM \<and>
         fst (host tr ct) \<noteq> ERR_INVALID_VALUE"
proof -
  from assms have "0 \<le> fst (host tr ct) \<or>
      fst (host tr ct) \<in> {- 1, - 2, - 3, - 4, - 5, - 6, - 7, - 8, - 9, - 10, - 11, - 12, - 99}"
    by (simp add: libusb_host_def)
  then show ?thesis
    by (auto simp add: ERR_INVALID_ID_def ERR_INVALID_PARAM_def ERR_INVALID_VALUE_def)
qed

lemma host_timeout_libusb: "libusb_host host_timeout"
  by (simp add: libusb_host_def host_timeout_def)

subsection \<open>Errors leave the caches alone\<close>

text \<open>
  C4. When \<^verbatim>\<open>setMode\<close> or \<^verbatim>\<open>setParameters\<close> returns a negative value, the cached mode,
  respectively the cached parameters, of every device are what they were. When the value
  is one of the three validation codes (and the bus answers with libusb's codes, which
  are different), the whole registry, the log of the bus included, is what it was: no
  lock was taken and no transfer made. The three kinds of validation failure do occur:
  an invalid id gives \<open>ERR_INVALID_ID\<close>, a null pointer \<open>ERR_INVALID_PARAM\<close>, a value out
  of range \<open>ERR_INVALID_VALUE\<close>, each with the registry unchanged.
\<close>

theorem setMode_setParameters_errors:
  "(fst (setMode host stack s device mode) < 0 \<longrightarrow>
      v_mode (snd (setMode host stack s device mode)) = v_mode s) \<and>
   (fst (setParameters host stack s device parameters) < 0 \<longrightarrow>
      v_params (snd (setParameters host stack s device parameters)) = v_params s) \<and>
   (libusb_host host \<longrightarrow>
      (fst (setMode host stack s device mode) \<in> {ERR_INVALID_ID, ERR_INVALID_PARAM, ERR_INVALID_VALUE} \<longrightarrow>
         snd (setMode host stack s device mode) = s) \<and>
      (fst (setParameters host stack s device parameters) \<in> {ERR_INVALID_ID, ERR_INVALID_PARAM, ERR_INVALID_VALUE} \<longrightarrow>
         snd (setParameters host stack s device parameters) = s)) \<and>
   (\<not> checkDevice s device \<longrightarrow>
      setMode host stack s device mode = (ERR_INVALID_ID, s) \<and>
      setParameters host stack s device parameters = (ERR_INVALID_ID, s)) \<and>
   (checkDevice s device \<longrightarrow>
      setMode host stack s device None = (ERR_INVALID_PARAM, s) \<and>
      setParameters host stack s device None = (ERR_INVALID_PARAM, s)) \<and>
   (checkDevice s device \<and> \<not> values_in_range p \<longrightarrow>
      setParameters host stack s device (Some p) = (ERR_INVALID_VALUE, s))"
proof (intro conjI impI)
  assume "fst (setMode host stack s device mode) < 0"
  then show "v_mode (snd (setMode host stack s device mode)) = v_mode s"
    by (auto simp add: setMode_eq Let_def ERR_SUCCESS_def split: option.splits if_splits)
next
  assume "fst (setParameters host stack s device parameters) < 0"
  then show "v_params (snd (setParameters host stack s device parameters)) = v_params s"
    by (auto simp add: setParameters_eq Let_def ERR_SUCCESS_def split: option.splits if_splits)
next
  assume h: "libusb_host host"
    and "fst (setMode host stack s device mode) \<in> {ERR_INVALID_ID, ERR_INVALID_PARAM, ERR_INVALID_VALUE}"
  then show "snd (setMode host stack s device mode) = s"
    using libusb_host_not_validation [OF h]
    by (auto simp add: setMode_eq Let_def ERR_SUCCESS_def ERR_INVALID_ID_def ERR_INVALID_PARAM_def ERR_INVALID_VALUE_def
          split: option.splits if_splits)
next
  assume h: "libusb_host host"
    and "fst (setParameters host stack s device parameters) \<in> {ERR_INVALID_ID, ERR_INVALID_PARAM, ERR_INVALID_VALUE}"
  then show "snd (setParameters host stack s device parameters) = s"
    using libusb_host_not_validation [OF h]
    by (auto simp add: setParameters_eq Let_def ERR_SUCCESS_def ERR_INVALID_ID_def ERR_INVALID_PARAM_def ERR_INVALID_VALUE_def
          split: option.splits if_splits)
qed (auto simp add: setMode_eq setParameters_eq)

theorem setMode_setParameters_errors_witness:
  "libusb_host host_timeout \<and>
   fst (setMode host_timeout stack0 one_device 0 (Some sample_Mode)) < 0 \<and>
   v_mode (snd (setMode host_timeout stack0 one_device 0 (Some sample_Mode))) = v_mode one_device \<and>
   fst (setParameters host_timeout stack0 one_device 0 (Some sample_Parameters)) < 0 \<and>
   v_params (snd (setParameters host_timeout stack0 one_device 0 (Some sample_Parameters))) =
     v_params one_device \<and>
   fst (setParameters host_timeout stack0 one_device 0 (Some (sample_Parameters\<lparr>AccelT := 10\<rparr>)))
     \<in> {ERR_INVALID_ID, ERR_INVALID_PARAM, ERR_INVALID_VALUE} \<and>
   snd (setParameters host_timeout stack0 one_device 0 (Some (sample_Parameters\<lparr>AccelT := 10\<rparr>))) =
     one_device \<and>
   fst (setMode host_timeout stack0 one_device 7 (Some sample_Mode))
     \<in> {ERR_INVALID_ID, ERR_INVALID_PARAM, ERR_INVALID_VALUE} \<and>
   snd (setMode host_timeout stack0 one_device 7 (Some sample_Mode)) = one_device"
proof -
  have valid: "checkDevice one_device 0"
    by (rule one_device_valid)
  have mode_failed: "fst (setMode host_timeout stack0 one_device 0 (Some sample_Mode)) < 0"
    using valid by (simp add: setMode_eq Let_def host_timeout_def)
  have params_failed:
    "fst (setParameters host_timeout stack0 one_device 0 (Some sample_Parameters)) < 0"
    using valid sample_Parameters_in_range by (simp add: setParameters_eq Let_def host_timeout_def)
  have out_of_range:
    "fst (setParameters host_timeout stack0 one_device 0 (Some (sample_Parameters\<lparr>AccelT := 10\<rparr>)))
       \<in> {ERR_INVALID_ID, ERR_INVALID_PARAM, ERR_INVALID_VALUE}"
    using valid by (simp add: setParameters_eq values_in_range_def)
  have bad_id: "fst (setMode host_timeout stack0 one_device 7 (Some sample_Mode))
       \<in> {ERR_INVALID_ID, ERR_INVALID_PARAM, ERR_INVALID_VALUE}"
    by (simp add: setMode_eq checkDevice_def one_device_defs)
  note t1 = setMode_setParameters_errors
    [where host = host_timeout and stack = stack0 and s = one_device and device = 0
       and mode = "Some sample_Mode" and parameters = "Some sample_Parameters"]
  note t2 = setMode_setParameters_errors
    [where host = host_timeout and stack = stack0 and s = one_device and device = 0
       and parameters = "Some (sample_Parameters\<lparr>AccelT := 10\<rparr>)"]
  note t3 = setMode_setParameters_errors
    [where host = host_timeout and stack = stack0 and s = one_device and device = 7
       and mode = "Some sample_Mode"]
  note mode_kept = t1 [THEN conjunct1, rule_format, OF mode_failed]
  note params_kept = t1 [THEN conjunct2, THEN conjunct1, rule_format, OF params_failed]
  note no_wire_params =
    t2 [THEN conjunct2, THEN conjunct2, THEN conjunct1, rule_format, OF host_timeout_libusb,
        THEN conjunct2, rule_format, OF out_of_range]
  note no_wire_mode =
    t3 [THEN conjunct2, THEN conjunct2, THEN conjunct1, rule_format, OF host_timeout_libusb,
        THEN conjunct1, rule_format, OF bad_id]
  from host_timeout_libusb mode_failed mode_kept params_failed params_kept out_of_range
    no_wire_params bad_id no_wire_mode
  show ?thesis
    by (intro conjI)
qed

subsection \<open>The boundaries of the ranges\<close>

text \<open>
  C7. A parameter record is accepted when \<^verbatim>\<open>setParameters\<close> gets as far as the wire
  (the log grows), and rejected when the call returns \<open>ERR_INVALID_VALUE\<close> with the
  registry untouched. On a valid device, for a record \<open>p\<close> that is accepted: \<open>p\<close> with
  \<open>AccelT = 49.0\<close> or \<open>AccelT = 1518.0\<close> is accepted, \<open>p\<close> with \<open>AccelT = 48.999\<close> or
  \<open>AccelT = 1518.001\<close> is rejected; \<^verbatim>\<open>setSpeed\<close> accepts \<open>16.0\<close> and \<open>5000.0\<close> (success,
  the speed cached) and rejects \<open>15.999\<close>.
\<close>

theorem boundary_values_inclusive:
  "checkDevice s device \<Longrightarrow>
   usb_log (snd (setParameters host stack s device (Some p))) \<noteq> usb_log s \<Longrightarrow>
     usb_log (snd (setParameters host stack s device (Some (p\<lparr>AccelT := 49.0\<rparr>)))) \<noteq> usb_log s \<and>
     usb_log (snd (setParameters host stack s device (Some (p\<lparr>AccelT := 1518.0\<rparr>)))) \<noteq> usb_log s \<and>
     setParameters host stack s device (Some (p\<lparr>AccelT := 48.999\<rparr>)) = (ERR_INVALID_VALUE, s) \<and>
     setParameters host stack s device (Some (p\<lparr>AccelT := 1518.001\<rparr>)) = (ERR_INVALID_VALUE, s) \<and>
     setSpeed s device 16.0 = (ERR_SUCCESS, s\<lparr>v_speed := (v_speed s)[nat device := 16.0]\<rparr>) \<and>
     setSpeed s device 5000.0 = (ERR_SUCCESS, s\<lparr>v_speed := (v_speed s)[nat device := 5000.0]\<rparr>) \<and>
     setSpeed s device 15.999 = (ERR_INVALID_VALUE, s)"
proof -
  assume valid: "checkDevice s device"
    and "usb_log (snd (setParameters host stack s device (Some p))) \<noteq> usb_log s"
  then have ok: "values_in_range p"
    by (simp add: setParameters_reaches_wire)
  have "values_in_range (p\<lparr>AccelT := 49.0\<rparr>)" and "values_in_range (p\<lparr>AccelT := 1518.0\<rparr>)"
    using ok by (simp_all add: values_in_range_def)
  with valid have accepted:
    "usb_log (snd (setParameters host stack s device (Some (p\<lparr>AccelT := 49.0\<rparr>)))) \<noteq> usb_log s"
    "usb_log (snd (setParameters host stack s device (Some (p\<lparr>AccelT := 1518.0\<rparr>)))) \<noteq> usb_log s"
    by (simp_all only: setParameters_reaches_wire) auto
  have "\<not> values_in_range (p\<lparr>AccelT := 48.999\<rparr>)"
    and "\<not> values_in_range (p\<lparr>AccelT := 1518.001\<rparr>)"
    by (simp_all add: values_in_range_def)
  with valid have rejected:
    "setParameters host stack s device (Some (p\<lparr>AccelT := 48.999\<rparr>)) = (ERR_INVALID_VALUE, s)"
    "setParameters host stack s device (Some (p\<lparr>AccelT := 1518.001\<rparr>)) = (ERR_INVALID_VALUE, s)"
    by (simp_all add: setParameters_eq)
  from valid have
    "setSpeed s device 16.0 = (ERR_SUCCESS, s\<lparr>v_speed := (v_speed s)[nat device := 16.0]\<rparr>)"
    "setSpeed s device 5000.0 = (ERR_SUCCESS, s\<lparr>v_speed := (v_speed s)[nat device := 5000.0]\<rparr>)"
    "setSpeed s device 15.999 = (ERR_INVALID_VALUE, s)"
    by (simp_all add: setSpeed_def)
  with accepted rejected show ?thesis
    by (intro conjI)
qed

theorem boundary_values_inclusive_witness:
  "checkDevice one_device 0 \<and>
   usb_log (snd (setParameters host_ok stack0 one_device 0 (Some sample_Parameters))) \<noteq> usb_log one_device \<and>
   usb_log (snd (setParameters host_ok stack0 one_device 0 (Some (sample_Parameters\<lparr>AccelT := 49.0\<rparr>)))) \<noteq> usb_log one_device \<and>
   usb_log (snd (setParameters host_ok stack0 one_device 0 (Some (sample_Parameters\<lparr>AccelT := 1518.0\<rparr>)))) \<noteq> usb_log one_device \<and>
   setParameters host_ok stack0 one_device 0 (Some (sample_Parameters\<lparr>AccelT := 48.999\<rparr>)) = (ERR_INVALID_VALUE, one_device) \<and>
   setParameters host_ok stack0 one_device 0 (Some (sample_Parameters\<lparr>AccelT := 1518.001\<rparr>)) = (ERR_INVALID_VALUE, one_device) \<and>
   setSpeed one_device 0 16.0 = (ERR_SUCCESS, one_device\<lparr>v_speed := (v_speed one_device)[nat 0 := 16.0]\<rparr>) \<and>
   setSpeed one_device 0 5000.0 = (ERR_SUCCESS, one_device\<lparr>v_speed := (v_speed one_device)[nat 0 := 5000.0]\<rparr>) \<and>
   setSpeed one_device 0 15.999 = (ERR_INVALID_VALUE, one_device)"
proof -
  have valid: "checkDevice one_device 0"
    by (rule one_device_valid)
  have accepted:
    "usb_log (snd (setParameters host_ok stack0 one_device 0 (Some sample_Parameters))) \<noteq> usb_log one_device"
    using valid sample_Parameters_in_range by (simp only: setParameters_reaches_wire) auto
  from valid accepted boundary_values_inclusive [OF valid accepted]
  show ?thesis
    by (intro conjI) blast+
qed

subsection \<open>The timer period of a move\<close>


lemma PACK_WORD_involution: "PACK_WORD (PACK_WORD w) = w"
  unfolding PACK_WORD_def HIBYTE_take LOBYTE_take
  by (rule bit_word_eqI) (auto simp add: bit_simps dest: bit_imp_le_length)

lemma PACK_WORD_eq_0: "PACK_WORD w = 0 \<longleftrightarrow> w = 0"
proof
  assume "PACK_WORD w = 0"
  then have "PACK_WORD (PACK_WORD w) = PACK_WORD 0" by simp
  then show "w = 0"
    by (simp add: PACK_WORD_involution) (simp add: PACK_WORD_def HIBYTE_def LOBYTE_def)
next
  assume "w = 0"
  then show "PACK_WORD w = 0"
    by (simp add: PACK_WORD_def HIBYTE_def LOBYTE_def)
qed





subsection \<open>The rounding error of single precision\<close>


lemma doublings_le: "doublings n x \<le> n"
  by (induction n arbitrary: x) auto



lemma exponent_ge: "- int emin \<le> exponent emin x"
  using doublings_le [of emin x] by (simp add: exponent_def)









subsection \<open>Values of the conversions\<close>

text \<open>
  The constant \<^verbatim>\<open>0.152f\<close>, and some arguments at which single precision gives one more
  than the same formula over the reals: a timeout of \<open>6324.1875\<close> ms is 41607 ticks
  (the exact quotient is \<open>41606.496...\<close>), the speeds 499 and 501 have the periods 65286
  and 65287. The temperature limit of 70 degrees is 23831 for a firmware version from
  \<open>0x2400\<close> on.
\<close>

lemma single_precision_values:
  "f32 0.152 = 10200547 / 67108864 \<and>
   time_ticks (101187 / 16) = 41607 \<and> time_ticks 500 = 3289 \<and>
   speed_period 499 = 65286 \<and> speed_period 501 = 65287 \<and>
   round (65536 - 125000 / (499 :: real)) = 65285 \<and>
   round (65536 - 125000 / (501 :: real)) = 65286"
  by (simp add: time_ticks_def speed_period_def float_defs round_def)

lemma MaxTemp_raw_70: "MaxTemp_raw 0x2407 70 = 23831"
  by (simp add: MaxTemp_raw_def MaxTemp_new_def float_defs)

subsection \<open>The timer period of a move, continued\<close>








subsection \<open>A loft period of zero\<close>



lemma loft_period_499:
  "loft_period 499 = 65286 \<and> round (65536 - 125000 / (499 :: real)) = 65285"
  by (simp add: loft_period_def float_defs round_def)




subsection \<open>The temperature of the state\<close>

lemma getState_eq:
  "getState host s device state =
     (if \<not> checkDevice s device then (ERR_INVALID_ID, state, s)
      else case state of
        None \<Rightarrow> (ERR_INVALID_PARAM, state, s)
      | Some st \<Rightarrow>
          (let ct = state_request s (nat device);
               res = host (usb_log s @ [Acquire (nat device)]) ct;
               s1 = s\<lparr>usb_log := usb_log s @ [Acquire (nat device), Transfer ct, Release (nat device)]\<rparr>
           in if fst res < 0 then (fst res, Some st, s1)
              else (0, Some (state_of_packet (v_version s ! nat device) (snd res)), s1)))"
  by (simp add: getState_def usmc_get_state_def locked_transfer_def Let_def split: option.splits prod.splits)

lemma state_Temp_new: "0x2400 \<le> version \<Longrightarrow> state_Temp version raw = real (unat raw) * 3.3 * 100 / 65536 - 50"
  by (simp add: state_Temp_def Let_def not_less [symmetric])

text \<open>
  C6, as the claim states it, fails in its example: on a device of firmware version
  \<open>0x2407\<close> a state packet with the raw temperature \<open>32768\<close> gives the temperature
  \<open>115\<close>, not \<open>15\<close>.
\<close>

theorem getState_temperature_32768_counterexample:
  "checkDevice one_device 0 \<and> v_version one_device ! 0 = 0x2407 \<and>
   read_u16 (snd (host_temp32768 [Acquire 0] (state_request one_device 0))) 4 = 32768 \<and>
   fst (getState host_temp32768 one_device 0 (Some zero_State)) = ERR_SUCCESS \<and>
   map_option Temp (fst (snd (getState host_temp32768 one_device 0 (Some zero_State)))) = Some 115 \<and>
   map_option Temp (fst (snd (getState host_temp32768 one_device 0 (Some zero_State)))) \<noteq> Some 15"
  by (simp add: getState_eq Let_def state_of_packet_def state_Temp_def host_temp32768_def
        read_u16_def checkDevice_def one_device_defs state_request_def ERR_SUCCESS_def)

text \<open>
  C6, amended. For a device whose firmware version is at least \<open>0x2400\<close>, a \<^verbatim>\<open>getState\<close>
  that the bus answers returns the temperature \<open>r * 3.3 * 100 / 65536 - 50\<close> for the raw
  reading \<open>r\<close>; the raw value \<open>32768\<close> yields \<open>115\<close>.
\<close>

theorem getState_temperature_formula:
  "checkDevice s device \<Longrightarrow> 0x2400 \<le> v_version s ! nat device \<Longrightarrow>
   0 \<le> fst (host (usb_log s @ [Acquire (nat device)]) (state_request s (nat device))) \<Longrightarrow>
     (let buf = snd (host (usb_log s @ [Acquire (nat device)]) (state_request s (nat device)));
          r = real (unat (read_u16 buf 4))
      in map_option Temp (fst (snd (getState host s device (Some st)))) =
           Some (r * 3.3 * 100 / 65536 - 50) \<and>
         (read_u16 buf 4 = 32768 \<longrightarrow>
            map_option Temp (fst (snd (getState host s device (Some st)))) = Some 115))"
  by (simp add: getState_eq Let_def state_of_packet_def state_Temp_new)

theorem getState_temperature_formula_witness:
  "checkDevice one_device 0 \<and> (0x2400 :: u32) \<le> v_version one_device ! nat 0 \<and>
   0 \<le> fst (host_temp32768 (usb_log one_device @ [Acquire (nat 0)]) (state_request one_device (nat 0))) \<and>
   read_u16 (snd (host_temp32768 (usb_log one_device @ [Acquire (nat 0)]) (state_request one_device (nat 0)))) 4 = 32768 \<and>
   map_option Temp (fst (snd (getState host_temp32768 one_device 0 (Some zero_State)))) = Some 115"
proof -
  have valid: "checkDevice one_device 0"
    by (rule one_device_valid)
  have version: "(0x2400 :: u32) \<le> v_version one_device ! nat 0"
    by (simp add: one_device_defs)
  have answered:
    "0 \<le> fst (host_temp32768 (usb_log one_device @ [Acquire (nat 0)]) (state_request one_device (nat 0)))"
    by (simp add: host_temp32768_def)
  have raw: "read_u16 (snd (host_temp32768 (usb_log one_device @ [Acquire (nat 0)])
      (state_request one_device (nat 0)))) 4 = 32768"
    by (simp add: host_temp32768_def read_u16_def)
  from getState_temperature_formula
      [where s = one_device and device = 0 and host = host_temp32768 and st = zero_State,
       OF valid version answered]
    raw valid version answered
  show ?thesis
    by (simp add: Let_def)
qed

subsection \<open>The step divisor\<close>

lemma goto_packet_M1_M2:
  "read_bit (goto_packet stack position speed params) 6 0 =
     (if USMC_StartParameters.SDivisor params = 1 then False
      else if USMC_StartParameters.SDivisor params = 2 then True
      else if USMC_StartParameters.SDivisor params = 4 then False
      else if USMC_StartParameters.SDivisor params = 8 then True
      else bit (stack 6) 0) \<and>
   read_bit (goto_packet stack position speed params) 6 1 =
     (if USMC_StartParameters.SDivisor params = 1 then False
      else if USMC_StartParameters.SDivisor params = 2 then False
      else if USMC_StartParameters.SDivisor params = 4 then True
      else if USMC_StartParameters.SDivisor params = 8 then True
      else bit (stack 6) 1)"
  unfolding goto_packet_def Let_def read_bit_def write_u16_def write_u32_def
  by (simp add: write_bit_same write_bit_other)

lemma goto_divisor_code:
  assumes "USMC_StartParameters.SDivisor params \<in> {1, 2, 4, 8}"
  shows "USMC_StartParameters.SDivisor params =
     2 ^ (2 * of_bool (read_bit (goto_packet stack position speed params) 6 1) +
          of_bool (read_bit (goto_packet stack position speed params) 6 0))"
  using assms by (auto simp add: goto_packet_M1_M2 [unfolded One_nat_def])

lemma attach_divisor:
  "USMC_StartParameters.SDivisor (v_start_params (attach s dev_h serial version) ! length (v_dev s)) = 8"
  if "length (v_start_params s) = length (v_dev s)"
  using that by (simp add: attach_def initDefaults_def Let_def zero_StartParameters_def)

text \<open>
  C9. \<^verbatim>\<open>setStartParameters\<close> stores the structure it is given without looking at it:
  with a step divisor of 3 it returns success and the cache holds 3. The \<^verbatim>\<open>switch\<close> of
  \<^verbatim>\<open>usmc_goto\<close> has no case for 3, so the bits \<open>M1\<close> and \<open>M2\<close> of the next move packet are
  whatever the stack held: \<open>00\<close> over a zeroed stack, \<open>11\<close> over a stack of \<open>0xFF\<close>.
  (For the divisors 1, 2, 4 and 8 the two bits are the code of \<open>goto_divisor_code\<close>, and
  a device starts with the divisor 8.)
\<close>

theorem setStartParameters_stores_any_divisor:
  "setStartParameters one_device 0 (Some divisor3) =
     (ERR_SUCCESS, one_device\<lparr>v_start_params := [divisor3]\<rparr>) \<and>
   USMC_StartParameters.SDivisor divisor3 = 3 \<and>
   usb_log (snd (moveTo host_ok stack0 (snd (setStartParameters one_device 0 (Some divisor3))) 0 0)) =
     [Acquire 0,
      Transfer \<lparr>handle = 1, bmRequestType = 0x40, bRequest = 0x80, wValue = 0x0000,
                wIndex = 0x0000, payload = [0xEC, 0x78, 0x00], wLength = 3\<rparr>,
      Release 0] \<and>
   usb_log (snd (moveTo host_ok stack1 (snd (setStartParameters one_device 0 (Some divisor3))) 0 0)) =
     [Acquire 0,
      Transfer \<lparr>handle = 1, bmRequestType = 0x40, bRequest = 0x80, wValue = 0x0000,
                wIndex = 0x0000, payload = [0xEC, 0x78, 0x03], wLength = 3\<rparr>,
      Release 0]"
  by (simp add: setStartParameters_def moveTo_def checkDevice_def usmc_goto_eq host_ok_def
        wire_defs macro_defs goto_TimerPeriod_200 divisor3_def stack0_def stack1_def one_device_defs
        ERR_SUCCESS_def)

end
